theory Spec2Isabelle
  imports Complex_Main "HOL-Library.Word"
begin

section \<open>The circle window: a Direct2D render target driven by window messages\<close>

text \<open>
  The program (\<^verbatim>\<open>src/GraphicsWin32/src/main.cpp\<close>) is a window class \<^verbatim>\<open>MainWindow\<close> with
  three COM interface pointers and one ellipse, and five member functions that the
  window procedure \<^verbatim>\<open>HandleMessage\<close> calls. The embedding is by explicit state passing:
  every member function takes the window's fields and returns them updated, together
  with the list of operating-system and Direct2D calls it made, in order.

  \<^item> An interface pointer is an \<open>option\<close>: \<open>None\<close> is \<^verbatim>\<open>NULL\<close>, \<open>Some obj\<close> points to the
    object \<open>obj\<close>. Every object of this program has exactly one owner (no pointer is ever
    copied), so the object's own state is kept with the pointer and no store is needed.
  \<^item> A call through a \<^verbatim>\<open>NULL\<close> pointer is an access violation: the function returns
    \<open>None\<close> there, and \<open>Some\<close> of its results otherwise.
  \<^item> What the operating system and Direct2D answer (the client rectangle, the
    \<^verbatim>\<open>HRESULT\<close> of each fallible call, the size in DIPs that a render target reports)
    is not decided by the program: it comes in as a record \<open>api_env\<close>, one per handled
    message.
  \<^item> A \<^verbatim>\<open>float\<close> is the real number it denotes. The only float operations of the
    program itself are a division by two (exact in binary floating point outside the
    subnormal range) and a comparison; the conversion from pixels to DIPs happens
    inside Direct2D and is not computed here.
\<close>

subsection \<open>Windows and Direct2D types\<close>

type_synonym HRESULT = "32 word"
type_synonym LONG = "32 word"
type_synonym UINT32 = "32 word"
type_synonym UINT = "32 word"
type_synonym HWND = nat
type_synonym WPARAM = nat
type_synonym LPARAM = int
type_synonym LRESULT = int

text \<open>\<^verbatim>\<open>HRESULT\<close> is a signed 32-bit value; a negative one is a failure (\<^verbatim>\<open>winerror.h\<close>).\<close>

definition S_OK :: HRESULT where
  "S_OK = 0"

definition D2DERR_RECREATE_TARGET :: HRESULT where
  "D2DERR_RECREATE_TARGET = 0x8899000C"

definition SUCCEEDED :: "HRESULT \<Rightarrow> bool" where
  "SUCCEEDED hr = (0 \<le> sint hr)"

definition FAILED :: "HRESULT \<Rightarrow> bool" where
  "FAILED hr = (sint hr < 0)"

text \<open>The message numbers of \<^verbatim>\<open>winuser.h\<close>.\<close>

definition WM_CREATE :: UINT where
  "WM_CREATE = 0x0001"

definition WM_DESTROY :: UINT where
  "WM_DESTROY = 0x0002"

definition WM_SIZE :: UINT where
  "WM_SIZE = 0x0005"

definition WM_PAINT :: UINT where
  "WM_PAINT = 0x000F"

record RECT =
  rc_left :: LONG
  rc_top :: LONG
  rc_right :: LONG
  rc_bottom :: LONG

record 'a D2D1_SIZE =
  width :: 'a
  height :: 'a

type_synonym D2D1_SIZE_U = "UINT32 D2D1_SIZE"
type_synonym D2D1_SIZE_F = "real D2D1_SIZE"

record D2D1_POINT_2F =
  pt_x :: real
  pt_y :: real

record D2D1_ELLIPSE =
  point :: D2D1_POINT_2F
  radiusX :: real
  radiusY :: real

record D2D1_COLOR_F =
  col_r :: real
  col_g :: real
  col_b :: real
  col_a :: real

datatype D2D1_FACTORY_TYPE =
  D2D1_FACTORY_TYPE_SINGLE_THREADED
| D2D1_FACTORY_TYPE_MULTI_THREADED

text \<open>
  The helper functions of namespace \<^verbatim>\<open>D2D1\<close> (\<^verbatim>\<open>d2d1helper.h\<close>) that the program calls.
  \<^verbatim>\<open>SizeU\<close> takes the two \<^verbatim>\<open>LONG\<close> coordinates as \<^verbatim>\<open>UINT32\<close>: the same 32 bits.
  \<^verbatim>\<open>ColorF(r, g, b)\<close> has the default alpha 1.0; \<^verbatim>\<open>ColorF(rgb)\<close> reads one byte per
  channel of a known colour and divides it by 255.
\<close>

definition SizeU :: "LONG \<Rightarrow> LONG \<Rightarrow> D2D1_SIZE_U" where
  "SizeU w h = \<lparr>width = w, height = h\<rparr>"

definition Point2F :: "real \<Rightarrow> real \<Rightarrow> D2D1_POINT_2F" where
  "Point2F x y = \<lparr>pt_x = x, pt_y = y\<rparr>"

definition Ellipse :: "D2D1_POINT_2F \<Rightarrow> real \<Rightarrow> real \<Rightarrow> D2D1_ELLIPSE" where
  "Ellipse center rx ry = \<lparr>point = center, radiusX = rx, radiusY = ry\<rparr>"

definition ColorF :: "real \<Rightarrow> real \<Rightarrow> real \<Rightarrow> D2D1_COLOR_F" where
  "ColorF r g b = \<lparr>col_r = r, col_g = g, col_b = b, col_a = 1\<rparr>"

definition BlanchedAlmond :: UINT32 where
  "BlanchedAlmond = 0xFFEBCD"

definition ColorF_known :: "UINT32 \<Rightarrow> D2D1_COLOR_F" where
  "ColorF_known rgb =
     \<lparr>col_r = real (unat (take_bit 8 (drop_bit 16 rgb))) / 255,
      col_g = real (unat (take_bit 8 (drop_bit 8 rgb))) / 255,
      col_b = real (unat (take_bit 8 rgb)) / 255,
      col_a = 1\<rparr>"

text \<open>The macro \<^verbatim>\<open>min\<close> of \<^verbatim>\<open>windows.h\<close>: \<^verbatim>\<open>(((a) < (b)) ? (a) : (b))\<close>.\<close>

definition min_macro :: "real \<Rightarrow> real \<Rightarrow> real" where
  "min_macro a b = (if a < b then a else b)"

subsection \<open>The Direct2D objects\<close>

text \<open>
  A factory remembers the threading model it was created with. A window render target
  has a size in pixels and its way of reporting a size in pixels as a size in DIPs
  (which depends on its DPI and on the rounding to \<^verbatim>\<open>float\<close>); a brush has its colour.
\<close>

record ID2D1Factory =
  factoryType :: D2D1_FACTORY_TYPE

record ID2D1HwndRenderTarget =
  rt_hwnd :: HWND
  rt_pixelSize :: D2D1_SIZE_U
  rt_dips :: "D2D1_SIZE_U \<Rightarrow> D2D1_SIZE_F"

record ID2D1SolidColorBrush =
  brush_color :: D2D1_COLOR_F

datatype com_object =
  Factory_object ID2D1Factory
| RenderTarget_object ID2D1HwndRenderTarget
| Brush_object ID2D1SolidColorBrush

text \<open>
  The calls that act on the world outside the window object, as they appear in the
  trace. \<^verbatim>\<open>GetClientRect\<close> and \<^verbatim>\<open>GetSize\<close> only read, and are not recorded.
\<close>

datatype api_call =
  Call_D2D1CreateFactory D2D1_FACTORY_TYPE
| Call_CreateHwndRenderTarget HWND D2D1_SIZE_U
| Call_CreateSolidColorBrush D2D1_COLOR_F
| Call_Release com_object
| Call_BeginPaint HWND
| Call_BeginDraw
| Call_Clear D2D1_COLOR_F
| Call_FillEllipse D2D1_ELLIPSE "ID2D1SolidColorBrush option"
| Call_EndDraw
| Call_EndPaint HWND
| Call_Resize D2D1_SIZE_U
| Call_InvalidateRect HWND "RECT option" bool
| Call_PostQuitMessage int
| Call_DefWindowProc HWND UINT WPARAM LPARAM

text \<open>What the operating system and Direct2D answer while one message is handled.\<close>

record api_env =
  client_rect :: RECT
  dips_of_pixels :: "D2D1_SIZE_U \<Rightarrow> D2D1_SIZE_F"
  hr_D2D1CreateFactory :: HRESULT
  hr_CreateHwndRenderTarget :: HRESULT
  hr_CreateSolidColorBrush :: HRESULT
  hr_Resize :: HRESULT
  hr_EndDraw :: HRESULT
  lr_DefWindowProc :: LRESULT

text \<open>
  The creating calls follow the COM contract: on success the out-pointer is the new
  object, on failure it is \<^verbatim>\<open>NULL\<close>. A render target made with the default
  \<^verbatim>\<open>RenderTargetProperties()\<close> takes the desktop DPI, and with it the conversion
  \<open>dips_of_pixels\<close> of the system.
\<close>

definition D2D1CreateFactory ::
  "api_env \<Rightarrow> D2D1_FACTORY_TYPE \<Rightarrow> HRESULT \<times> ID2D1Factory option" where
  "D2D1CreateFactory env ft =
     (let hr = hr_D2D1CreateFactory env
      in (hr, if SUCCEEDED hr then Some \<lparr>factoryType = ft\<rparr> else None))"

definition CreateHwndRenderTarget ::
  "api_env \<Rightarrow> HWND \<Rightarrow> D2D1_SIZE_U \<Rightarrow> HRESULT \<times> ID2D1HwndRenderTarget option" where
  "CreateHwndRenderTarget env hwnd sz =
     (let hr = hr_CreateHwndRenderTarget env
      in (hr, if SUCCEEDED hr
              then Some \<lparr>rt_hwnd = hwnd, rt_pixelSize = sz, rt_dips = dips_of_pixels env\<rparr>
              else None))"

definition CreateSolidColorBrush ::
  "api_env \<Rightarrow> D2D1_COLOR_F \<Rightarrow> HRESULT \<times> ID2D1SolidColorBrush option" where
  "CreateSolidColorBrush env c =
     (let hr = hr_CreateSolidColorBrush env
      in (hr, if SUCCEEDED hr then Some \<lparr>brush_color = c\<rparr> else None))"

text \<open>
  \<^verbatim>\<open>GetSize\<close> ``returns the size of the render target in DIPs (not pixels)'': the two
  floats that the render target reports for its size in pixels. \<^verbatim>\<open>Resize\<close> ``updates
  the size of the render target, also specified in pixels'', and returns an
  \<^verbatim>\<open>HRESULT\<close>: when it fails the render target keeps the size it had.
\<close>

definition GetSize :: "ID2D1HwndRenderTarget \<Rightarrow> D2D1_SIZE_F" where
  "GetSize rt = rt_dips rt (rt_pixelSize rt)"

definition Resize_target ::
  "api_env \<Rightarrow> D2D1_SIZE_U \<Rightarrow> ID2D1HwndRenderTarget \<Rightarrow> HRESULT \<times> ID2D1HwndRenderTarget" where
  "Resize_target env sz rt =
     (let hr = hr_Resize env
      in (hr, if SUCCEEDED hr then rt\<lparr>rt_pixelSize := sz\<rparr> else rt))"

subsection \<open>The window class\<close>

record MainWindow =
  m_hwnd :: HWND
  pFactory :: "ID2D1Factory option"
  pRenderTarget :: "ID2D1HwndRenderTarget option"
  pBrush :: "ID2D1SolidColorBrush option"
  ellipse :: D2D1_ELLIPSE

text \<open>
  The constructor sets the three pointers to \<^verbatim>\<open>NULL\<close> and gives \<^verbatim>\<open>ellipse\<close> no value:
  the field starts with whatever the memory holds, the parameter \<open>e0\<close>. The window
  handle \<^verbatim>\<open>m_hwnd\<close> belongs to the base class and is set when the window is created.
\<close>

definition MainWindow_ctor :: "HWND \<Rightarrow> D2D1_ELLIPSE \<Rightarrow> MainWindow" where
  "MainWindow_ctor hwnd e0 =
     \<lparr>m_hwnd = hwnd, pFactory = None, pRenderTarget = None, pBrush = None, ellipse = e0\<rparr>"

text \<open>
  \<^verbatim>\<open>SafeRelease(&p)\<close>: when \<^verbatim>\<open>p\<close> is not \<^verbatim>\<open>NULL\<close>, release the object and set \<^verbatim>\<open>p\<close> to
  \<^verbatim>\<open>NULL\<close>. The first argument says which interface the pointer has.
\<close>

definition SafeRelease :: "('a \<Rightarrow> com_object) \<Rightarrow> 'a option \<Rightarrow> 'a option \<times> api_call list" where
  "SafeRelease kind ppT =
     (case ppT of
        None \<Rightarrow> (None, [])
      | Some obj \<Rightarrow> (None, [Call_Release (kind obj)]))"

definition CalculateLayout :: "MainWindow \<Rightarrow> MainWindow" where
  "CalculateLayout s =
     (case pRenderTarget s of
        None \<Rightarrow> s
      | Some rt \<Rightarrow>
          (let sz = GetSize rt;
               x = width sz / 2;
               y = height sz / 2;
               radius = min_macro x y
           in s\<lparr>ellipse := Ellipse (Point2F x y) radius radius\<rparr>))"

definition CreateGraphicsResources ::
  "api_env \<Rightarrow> MainWindow \<Rightarrow> (HRESULT \<times> MainWindow \<times> api_call list) option" where
  "CreateGraphicsResources env s =
     (if pRenderTarget s = None then
        (case pFactory s of
           None \<Rightarrow> None
         | Some factory \<Rightarrow>
             (let rc = client_rect env;
                  sz = SizeU (rc_right rc) (rc_bottom rc);
                  (hr1, target) = CreateHwndRenderTarget env (m_hwnd s) sz;
                  s1 = s\<lparr>pRenderTarget := target\<rparr>;
                  t1 = [Call_CreateHwndRenderTarget (m_hwnd s) sz]
              in if SUCCEEDED hr1 then
                   (let color = ColorF 1 0 0;
                        (hr2, brush) = CreateSolidColorBrush env color;
                        s2 = s1\<lparr>pBrush := brush\<rparr>;
                        t2 = t1 @ [Call_CreateSolidColorBrush color]
                    in if SUCCEEDED hr2 then Some (hr2, CalculateLayout s2, t2)
                       else Some (hr2, s2, t2))
                 else Some (hr1, s1, t1)))
      else Some (S_OK, s, []))"

definition DiscardGraphicsResources :: "MainWindow \<Rightarrow> MainWindow \<times> api_call list" where
  "DiscardGraphicsResources s =
     (let (target, t1) = SafeRelease RenderTarget_object (pRenderTarget s);
          (brush, t2) = SafeRelease Brush_object (pBrush s)
      in (s\<lparr>pRenderTarget := target, pBrush := brush\<rparr>, t1 @ t2))"

definition OnPaint :: "api_env \<Rightarrow> MainWindow \<Rightarrow> (MainWindow \<times> api_call list) option" where
  "OnPaint env s =
     (case CreateGraphicsResources env s of
        None \<Rightarrow> None
      | Some (hr, s1, t1) \<Rightarrow>
          if SUCCEEDED hr then
            (case pRenderTarget s1 of
               None \<Rightarrow> None
             | Some rt \<Rightarrow>
                 (let t2 = [Call_BeginPaint (m_hwnd s1),
                            Call_BeginDraw,
                            Call_Clear (ColorF_known BlanchedAlmond),
                            Call_FillEllipse (ellipse s1) (pBrush s1),
                            Call_EndDraw];
                      hr' = hr_EndDraw env;
                      (s2, t3) = (if FAILED hr' \<or> hr' = D2DERR_RECREATE_TARGET
                                  then DiscardGraphicsResources s1
                                  else (s1, []))
                  in Some (s2, t1 @ t2 @ t3 @ [Call_EndPaint (m_hwnd s1)])))
          else Some (s1, t1))"

text \<open>\<^verbatim>\<open>Resize\<close> drops the \<^verbatim>\<open>HRESULT\<close> of the render target's \<^verbatim>\<open>Resize\<close>.\<close>

definition Resize :: "api_env \<Rightarrow> MainWindow \<Rightarrow> MainWindow \<times> api_call list" where
  "Resize env s =
     (case pRenderTarget s of
        None \<Rightarrow> (s, [])
      | Some rt \<Rightarrow>
          (let rc = client_rect env;
               sz = SizeU (rc_right rc) (rc_bottom rc);
               (hr, target) = Resize_target env sz rt;
               s1 = s\<lparr>pRenderTarget := Some target\<rparr>
           in (CalculateLayout s1,
               [Call_Resize sz, Call_InvalidateRect (m_hwnd s) None False])))"

definition HandleMessage ::
  "api_env \<Rightarrow> UINT \<Rightarrow> WPARAM \<Rightarrow> LPARAM \<Rightarrow> MainWindow
     \<Rightarrow> (LRESULT \<times> MainWindow \<times> api_call list) option" where
  "HandleMessage env uMsg wParam lParam s =
     (if uMsg = WM_CREATE then
        (let (hr, factory) = D2D1CreateFactory env D2D1_FACTORY_TYPE_SINGLE_THREADED;
             s1 = s\<lparr>pFactory := factory\<rparr>;
             t = [Call_D2D1CreateFactory D2D1_FACTORY_TYPE_SINGLE_THREADED]
         in if FAILED hr then Some (- 1, s1, t) else Some (0, s1, t))
      else if uMsg = WM_DESTROY then
        (let (s1, t1) = DiscardGraphicsResources s;
             (factory, t2) = SafeRelease Factory_object (pFactory s1)
         in Some (0, s1\<lparr>pFactory := factory\<rparr>, t1 @ t2 @ [Call_PostQuitMessage 0]))
      else if uMsg = WM_PAINT then
        (case OnPaint env s of
           None \<Rightarrow> None
         | Some (s1, t) \<Rightarrow> Some (0, s1, t))
      else if uMsg = WM_SIZE then
        (let (s1, t) = Resize env s in Some (0, s1, t))
      else
        Some (lr_DefWindowProc env, s,
              [Call_DefWindowProc (m_hwnd s) uMsg wParam lParam]))"

text \<open>
  The message loop of \<^verbatim>\<open>wWinMain\<close> dispatches each message that \<^verbatim>\<open>GetMessage\<close>
  retrieves to the window procedure, one after the other. \<open>dispatch_messages\<close> is this
  loop over the messages of the window that were retrieved so far, each with the answers
  of the system while it is handled; it stops at an access violation.
\<close>

fun dispatch_messages ::
  "(api_env \<times> UINT \<times> WPARAM \<times> LPARAM) list \<Rightarrow> MainWindow \<times> api_call list
     \<Rightarrow> (MainWindow \<times> api_call list) option" where
  "dispatch_messages [] st = Some st"
| "dispatch_messages ((env, uMsg, wParam, lParam) # msgs) (s, t) =
     (case HandleMessage env uMsg wParam lParam s of
        None \<Rightarrow> None
      | Some (r, s1, t1) \<Rightarrow> dispatch_messages msgs (s1, t @ t1))"

subsection \<open>Concrete windows and system answers\<close>

text \<open>
  The inputs at which the theorems below are evaluated: a client area of 800 by 600
  pixels at 96 DPI (where a pixel is a DIP, and these sizes are floats), a system that
  answers \<^verbatim>\<open>S_OK\<close> to everything, systems where creating the render target, creating
  the brush or resizing fails with \<^verbatim>\<open>E_OUTOFMEMORY\<close>, and one where \<^verbatim>\<open>EndDraw\<close>
  reports the lost device. \<open>ellipse_garbage\<close> stands for the content of the
  never-assigned field \<^verbatim>\<open>ellipse\<close> of a new window object.
\<close>

definition dips_at_96 :: "D2D1_SIZE_U \<Rightarrow> D2D1_SIZE_F" where
  "dips_at_96 sz = \<lparr>width = real (unat (width sz)), height = real (unat (height sz))\<rparr>"

definition E_OUTOFMEMORY :: HRESULT where
  "E_OUTOFMEMORY = 0x8007000E"

definition env_ok :: api_env where
  "env_ok =
     \<lparr>client_rect = \<lparr>rc_left = 0, rc_top = 0, rc_right = 800, rc_bottom = 600\<rparr>,
      dips_of_pixels = dips_at_96,
      hr_D2D1CreateFactory = S_OK,
      hr_CreateHwndRenderTarget = S_OK,
      hr_CreateSolidColorBrush = S_OK,
      hr_Resize = S_OK,
      hr_EndDraw = S_OK,
      lr_DefWindowProc = 0\<rparr>"

definition env_brush_fails :: api_env where
  "env_brush_fails = env_ok\<lparr>hr_CreateSolidColorBrush := E_OUTOFMEMORY\<rparr>"

definition env_target_fails :: api_env where
  "env_target_fails = env_ok\<lparr>hr_CreateHwndRenderTarget := E_OUTOFMEMORY\<rparr>"

definition env_device_lost :: api_env where
  "env_device_lost = env_ok\<lparr>hr_EndDraw := D2DERR_RECREATE_TARGET\<rparr>"

definition env_resized :: api_env where
  "env_resized =
     env_ok\<lparr>client_rect := \<lparr>rc_left = 0, rc_top = 0, rc_right = 400, rc_bottom = 1000\<rparr>\<rparr>"

definition env_resize_fails :: api_env where
  "env_resize_fails = env_resized\<lparr>hr_Resize := E_OUTOFMEMORY\<rparr>"

definition ellipse_garbage :: D2D1_ELLIPSE where
  "ellipse_garbage = \<lparr>point = \<lparr>pt_x = 0, pt_y = 0\<rparr>, radiusX = 1, radiusY = 2\<rparr>"

definition factory_single :: ID2D1Factory where
  "factory_single = \<lparr>factoryType = D2D1_FACTORY_TYPE_SINGLE_THREADED\<rparr>"

definition target_800x600 :: ID2D1HwndRenderTarget where
  "target_800x600 =
     \<lparr>rt_hwnd = 1, rt_pixelSize = \<lparr>width = 800, height = 600\<rparr>, rt_dips = dips_at_96\<rparr>"

definition brush_red :: ID2D1SolidColorBrush where
  "brush_red = \<lparr>brush_color = \<lparr>col_r = 1, col_g = 0, col_b = 0, col_a = 1\<rparr>\<rparr>"

definition circle_800x600 :: D2D1_ELLIPSE where
  "circle_800x600 = \<lparr>point = \<lparr>pt_x = 400, pt_y = 300\<rparr>, radiusX = 300, radiusY = 300\<rparr>"

text \<open>The window after \<^verbatim>\<open>WM_CREATE\<close>, before its first paint.\<close>

definition win_created :: MainWindow where
  "win_created =
     \<lparr>m_hwnd = 1, pFactory = Some factory_single, pRenderTarget = None, pBrush = None,
      ellipse = ellipse_garbage\<rparr>"

text \<open>The window after a first paint in which both resources were created.\<close>

definition win_ready :: MainWindow where
  "win_ready =
     \<lparr>m_hwnd = 1, pFactory = Some factory_single, pRenderTarget = Some target_800x600,
      pBrush = Some brush_red, ellipse = circle_800x600\<rparr>"

text \<open>
  The window after a first paint in which the render target was created and the brush
  was not: \<^verbatim>\<open>CalculateLayout\<close> has not run.
\<close>

definition win_no_brush :: MainWindow where
  "win_no_brush =
     \<lparr>m_hwnd = 1, pFactory = Some factory_single, pRenderTarget = Some target_800x600,
      pBrush = None, ellipse = ellipse_garbage\<rparr>"

subsection \<open>Consistency of the resources\<close>

text \<open>
  Two predicates for the properties below. A window is consistent when a brush, if it
  has one, is red and comes with a render target and an ellipse of equal radii. A call
  is a red circle call unless it is a \<^verbatim>\<open>FillEllipse\<close> with a brush that is not red or
  with an ellipse of unequal radii; a \<^verbatim>\<open>FillEllipse\<close> with the \<^verbatim>\<open>NULL\<close> brush is not
  judged.
\<close>

definition resources_consistent :: "MainWindow \<Rightarrow> bool" where
  "resources_consistent s =
     (case pBrush s of
        None \<Rightarrow> True
      | Some b \<Rightarrow> brush_color b = ColorF 1 0 0 \<and> pRenderTarget s \<noteq> None
                  \<and> radiusX (ellipse s) = radiusY (ellipse s))"

fun red_circle_call :: "api_call \<Rightarrow> bool" where
  "red_circle_call (Call_FillEllipse e (Some b)) =
     (brush_color b = ColorF 1 0 0 \<and> radiusX e = radiusY e)"
| "red_circle_call c = True"

section \<open>Properties\<close>

subsection \<open>Auxiliary facts\<close>

lemmas helper_defs = SizeU_def Point2F_def Ellipse_def ColorF_def

lemmas message_defs = WM_CREATE_def WM_DESTROY_def WM_PAINT_def WM_SIZE_def

lemmas input_defs = env_ok_def env_brush_fails_def env_target_fails_def env_device_lost_def
  env_resized_def env_resize_fails_def dips_at_96_def
  ellipse_garbage_def factory_single_def target_800x600_def brush_red_def circle_800x600_def
  win_created_def win_ready_def win_no_brush_def E_OUTOFMEMORY_def S_OK_def
  D2DERR_RECREATE_TARGET_def

lemmas operation_defs = CreateGraphicsResources_def CreateHwndRenderTarget_def
  CreateSolidColorBrush_def D2D1CreateFactory_def CalculateLayout_def GetSize_def
  Resize_target_def DiscardGraphicsResources_def SafeRelease_def OnPaint_def Resize_def
  HandleMessage_def SUCCEEDED_def FAILED_def MainWindow_ctor_def min_macro_def

text \<open>On the reals the macro is the minimum.\<close>

lemma min_macro_min: "min_macro a b = min a b"
  by (auto simp: min_macro_def min_def)

lemma SUCCEEDED_not_lost:
  "SUCCEEDED hr \<Longrightarrow> \<not> (FAILED hr \<or> hr = D2DERR_RECREATE_TARGET)"
  by (auto simp: SUCCEEDED_def FAILED_def D2DERR_RECREATE_TARGET_def)

lemma CalculateLayout_fields:
  "m_hwnd (CalculateLayout s) = m_hwnd s"
  "pFactory (CalculateLayout s) = pFactory s"
  "pRenderTarget (CalculateLayout s) = pRenderTarget s"
  "pBrush (CalculateLayout s) = pBrush s"
  by (simp_all add: CalculateLayout_def Let_def split: option.splits)

lemma CalculateLayout_radii:
  "pRenderTarget s \<noteq> None \<Longrightarrow>
   radiusX (ellipse (CalculateLayout s)) = radiusY (ellipse (CalculateLayout s))"
  by (auto simp: CalculateLayout_def Let_def Ellipse_def)

lemma CreateGraphicsResources_existing:
  "pRenderTarget s \<noteq> None \<Longrightarrow> CreateGraphicsResources env s = Some (S_OK, s, [])"
  by (auto simp: CreateGraphicsResources_def)

text \<open>With no render target and a factory, two successful creations give both resources
  and the layout.\<close>

lemma CreateGraphicsResources_fresh:
  assumes "pRenderTarget s = None" and "pFactory s = Some f"
    and "SUCCEEDED (hr_CreateHwndRenderTarget env)"
    and "SUCCEEDED (hr_CreateSolidColorBrush env)"
  shows "CreateGraphicsResources env s =
     Some (hr_CreateSolidColorBrush env,
           CalculateLayout (s\<lparr>pRenderTarget :=
               Some \<lparr>rt_hwnd = m_hwnd s,
                     rt_pixelSize =
                       SizeU (rc_right (client_rect env)) (rc_bottom (client_rect env)),
                     rt_dips = dips_of_pixels env\<rparr>,
             pBrush := Some \<lparr>brush_color = ColorF 1 0 0\<rparr>\<rparr>),
           [Call_CreateHwndRenderTarget (m_hwnd s)
              (SizeU (rc_right (client_rect env)) (rc_bottom (client_rect env))),
            Call_CreateSolidColorBrush (ColorF 1 0 0)])"
  using assms
  by (simp add: CreateGraphicsResources_def CreateHwndRenderTarget_def
        CreateSolidColorBrush_def Let_def)

text \<open>A successful \<^verbatim>\<open>CreateGraphicsResources\<close> leaves a render target, so the drawing
  calls of \<^verbatim>\<open>OnPaint\<close> never go through \<^verbatim>\<open>NULL\<close>.\<close>

lemma CreateGraphicsResources_success_target:
  assumes "CreateGraphicsResources env s = Some (hr, s1, t1)" and "SUCCEEDED hr"
  shows "pRenderTarget s1 \<noteq> None"
  using assms
  by (auto simp: CreateGraphicsResources_def CreateHwndRenderTarget_def
        CreateSolidColorBrush_def Let_def CalculateLayout_fields
        split: if_splits option.splits)

lemma CreateGraphicsResources_fields:
  assumes "CreateGraphicsResources env s = Some (hr, s1, t1)"
  shows "m_hwnd s1 = m_hwnd s" and "pFactory s1 = pFactory s"
  using assms
  by (auto simp: CreateGraphicsResources_def CreateHwndRenderTarget_def
        CreateSolidColorBrush_def Let_def CalculateLayout_fields
        split: if_splits option.splits)

lemma DiscardGraphicsResources_state:
  "fst (DiscardGraphicsResources s) = s\<lparr>pRenderTarget := None, pBrush := None\<rparr>"
  by (simp add: DiscardGraphicsResources_def SafeRelease_def split: option.splits)

text \<open>The order of the drawing calls, on every paint that gets past
  \<^verbatim>\<open>CreateGraphicsResources\<close>.\<close>

lemma OnPaint_draw_calls:
  assumes "CreateGraphicsResources env s = Some (hr, s1, t1)" and "SUCCEEDED hr"
  shows "\<exists>s2 t3. OnPaint env s =
           Some (s2, t1 @ [Call_BeginPaint (m_hwnd s), Call_BeginDraw,
                           Call_Clear (ColorF_known BlanchedAlmond),
                           Call_FillEllipse (ellipse s1) (pBrush s1),
                           Call_EndDraw] @ t3 @ [Call_EndPaint (m_hwnd s)])"
proof -
  obtain rt where "pRenderTarget s1 = Some rt"
    using CreateGraphicsResources_success_target [OF assms] by blast
  then show ?thesis
    using assms CreateGraphicsResources_fields(1) [OF assms(1)]
    by (auto simp: OnPaint_def Let_def split: prod.splits)
qed

text \<open>What \<^verbatim>\<open>OnPaint\<close> returns, state and calls, once \<^verbatim>\<open>CreateGraphicsResources\<close>
  has succeeded.\<close>

lemma OnPaint_result:
  assumes "CreateGraphicsResources env s = Some (hr, s1, t1)" and "SUCCEEDED hr"
  shows "\<exists>rt. pRenderTarget s1 = Some rt
         \<and> OnPaint env s =
             Some (if FAILED (hr_EndDraw env) \<or> hr_EndDraw env = D2DERR_RECREATE_TARGET
                   then s1\<lparr>pRenderTarget := None, pBrush := None\<rparr> else s1,
               t1 @ [Call_BeginPaint (m_hwnd s1), Call_BeginDraw,
                     Call_Clear (ColorF_known BlanchedAlmond),
                     Call_FillEllipse (ellipse s1) (pBrush s1), Call_EndDraw]
               @ (if FAILED (hr_EndDraw env) \<or> hr_EndDraw env = D2DERR_RECREATE_TARGET
                  then Call_Release (RenderTarget_object rt)
                       # (case pBrush s1 of None \<Rightarrow> []
                          | Some b \<Rightarrow> [Call_Release (Brush_object b)])
                  else [])
               @ [Call_EndPaint (m_hwnd s1)])"
proof -
  obtain rt where "pRenderTarget s1 = Some rt"
    using CreateGraphicsResources_success_target [OF assms] by blast
  then show ?thesis
    using assms
    by (auto simp: OnPaint_def DiscardGraphicsResources_def SafeRelease_def Let_def
          split: option.splits)
qed

text \<open>A paint that itself creates the resources draws a circle with a red brush.\<close>

lemma OnPaint_first_paint_red_circle:
  assumes "pRenderTarget s = None" and "pFactory s = Some f"
    and "SUCCEEDED (hr_CreateHwndRenderTarget env)"
    and "SUCCEEDED (hr_CreateSolidColorBrush env)"
  shows "\<exists>s2 t0 t3 e. OnPaint env s =
           Some (s2, t0 @ [Call_BeginDraw, Call_Clear (ColorF_known BlanchedAlmond),
                           Call_FillEllipse e (Some \<lparr>brush_color = ColorF 1 0 0\<rparr>),
                           Call_EndDraw] @ t3)
         \<and> radiusX e = radiusY e"
proof -
  note fresh = CreateGraphicsResources_fresh [OF assms]
  have "SUCCEEDED (hr_CreateSolidColorBrush env)" by (rule assms(4))
  from OnPaint_draw_calls [OF fresh this]
  obtain s2 t3 where "OnPaint env s =
      Some (s2, ([Call_CreateHwndRenderTarget (m_hwnd s)
              (SizeU (rc_right (client_rect env)) (rc_bottom (client_rect env))),
            Call_CreateSolidColorBrush (ColorF 1 0 0), Call_BeginPaint (m_hwnd s)])
          @ [Call_BeginDraw, Call_Clear (ColorF_known BlanchedAlmond),
             Call_FillEllipse (ellipse (CalculateLayout (s\<lparr>pRenderTarget :=
               Some \<lparr>rt_hwnd = m_hwnd s,
                     rt_pixelSize =
                       SizeU (rc_right (client_rect env)) (rc_bottom (client_rect env)),
                     rt_dips = dips_of_pixels env\<rparr>,
             pBrush := Some \<lparr>brush_color = ColorF 1 0 0\<rparr>\<rparr>)))
               (Some \<lparr>brush_color = ColorF 1 0 0\<rparr>),
             Call_EndDraw] @ (t3 @ [Call_EndPaint (m_hwnd s)]))"
    by (auto simp: CalculateLayout_fields)
  moreover have "radiusX (ellipse (CalculateLayout (s\<lparr>pRenderTarget :=
               Some \<lparr>rt_hwnd = m_hwnd s,
                     rt_pixelSize =
                       SizeU (rc_right (client_rect env)) (rc_bottom (client_rect env)),
                     rt_dips = dips_of_pixels env\<rparr>,
             pBrush := Some \<lparr>brush_color = ColorF 1 0 0\<rparr>\<rparr>)))
      = radiusY (ellipse (CalculateLayout (s\<lparr>pRenderTarget :=
               Some \<lparr>rt_hwnd = m_hwnd s,
                     rt_pixelSize =
                       SizeU (rc_right (client_rect env)) (rc_bottom (client_rect env)),
                     rt_dips = dips_of_pixels env\<rparr>,
             pBrush := Some \<lparr>brush_color = ColorF 1 0 0\<rparr>\<rparr>)))"
    by (rule CalculateLayout_radii) simp
  ultimately show ?thesis by blast
qed

text \<open>The states named above are the ones the window reaches from its constructor.\<close>

lemma reach_win_created:
  "dispatch_messages [(env_ok, WM_CREATE, 0, 0)] (MainWindow_ctor 1 ellipse_garbage, [])
     = Some (win_created, [Call_D2D1CreateFactory D2D1_FACTORY_TYPE_SINGLE_THREADED])"
  by (simp add: operation_defs input_defs message_defs helper_defs Let_def)

lemma reach_win_ready:
  "dispatch_messages [(env_ok, WM_PAINT, 0, 0)] (win_created, [])
     = Some (win_ready,
         [Call_CreateHwndRenderTarget 1 \<lparr>width = 800, height = 600\<rparr>,
          Call_CreateSolidColorBrush (ColorF 1 0 0),
          Call_BeginPaint 1, Call_BeginDraw, Call_Clear (ColorF_known BlanchedAlmond),
          Call_FillEllipse circle_800x600 (Some brush_red), Call_EndDraw, Call_EndPaint 1])"
  by (simp add: operation_defs input_defs message_defs helper_defs Let_def)

lemma reach_win_no_brush:
  "dispatch_messages [(env_brush_fails, WM_PAINT, 0, 0)] (win_created, [])
     = Some (win_no_brush,
         [Call_CreateHwndRenderTarget 1 \<lparr>width = 800, height = 600\<rparr>,
          Call_CreateSolidColorBrush (ColorF 1 0 0)])"
  by (simp add: operation_defs input_defs message_defs helper_defs Let_def)

subsection \<open>The layout\<close>

text \<open>
  Claim C1. For a render target that reports the size \<open>w\<close> by \<open>h\<close>, \<^verbatim>\<open>CalculateLayout\<close>
  sets the ellipse to the circle with centre \<open>(w/2, h/2)\<close> whose two radii are both
  \<open>min (w/2) (h/2)\<close>, so that its diameter is the shorter side of the rectangle, and
  changes nothing else; when \<^verbatim>\<open>pRenderTarget\<close> is \<^verbatim>\<open>NULL\<close> it leaves the window, and so the
  ellipse, unchanged.
\<close>

theorem CalculateLayout_centered_circle:
  "(pRenderTarget s = Some rt \<and> GetSize rt = \<lparr>width = w, height = h\<rparr> \<longrightarrow>
      CalculateLayout s =
        s\<lparr>ellipse := \<lparr>point = \<lparr>pt_x = w / 2, pt_y = h / 2\<rparr>,
                      radiusX = min (w / 2) (h / 2), radiusY = min (w / 2) (h / 2)\<rparr>\<rparr>
      \<and> 2 * radiusX (ellipse (CalculateLayout s)) = min w h)
   \<and> (pRenderTarget s = None \<longrightarrow> CalculateLayout s = s)"
  by (auto simp: CalculateLayout_def helper_defs min_macro_min Let_def)

theorem CalculateLayout_centered_circle_witness:
  "pRenderTarget win_ready = Some target_800x600
   \<and> GetSize target_800x600 = \<lparr>width = 800, height = 600\<rparr>
   \<and> CalculateLayout win_ready = win_ready\<lparr>ellipse := circle_800x600\<rparr>
   \<and> pRenderTarget win_created = None
   \<and> CalculateLayout win_created = win_created"
proof -
  have h1: "pRenderTarget win_ready = Some target_800x600"
    by (simp add: win_ready_def)
  have h2: "GetSize target_800x600 = \<lparr>width = 800, height = 600\<rparr>"
    by (simp add: GetSize_def target_800x600_def dips_at_96_def)
  have h3: "pRenderTarget win_created = None"
    by (simp add: win_created_def)
  show ?thesis
    using h1 h2 h3
      CalculateLayout_centered_circle [of win_ready target_800x600 800 600]
      CalculateLayout_centered_circle [of win_created target_800x600 800 600]
    by (simp add: circle_800x600_def)
qed

subsection \<open>Lazy creation of the resources\<close>

text \<open>
  Claim C5. \<^verbatim>\<open>CreateGraphicsResources\<close> is lazy. When the render target exists it
  returns \<^verbatim>\<open>S_OK\<close>, makes no call and leaves the whole window unchanged; whenever it
  changes the window or makes a call, \<^verbatim>\<open>pRenderTarget\<close> was \<^verbatim>\<open>NULL\<close>. When
  \<^verbatim>\<open>pRenderTarget\<close> is \<^verbatim>\<open>NULL\<close> (and the factory exists and both creations succeed) it
  creates the render target for the client rectangle, the red brush, and the layout.
\<close>

theorem CreateGraphicsResources_lazy:
  "(pRenderTarget s \<noteq> None \<longrightarrow> CreateGraphicsResources env s = Some (S_OK, s, []))
   \<and> (CreateGraphicsResources env s = Some (hr, s', t) \<and> (s' \<noteq> s \<or> t \<noteq> []) \<longrightarrow>
        pRenderTarget s = None)
   \<and> (pRenderTarget s = None \<and> pFactory s = Some f
        \<and> SUCCEEDED (hr_CreateHwndRenderTarget env)
        \<and> SUCCEEDED (hr_CreateSolidColorBrush env) \<longrightarrow>
        CreateGraphicsResources env s =
          Some (hr_CreateSolidColorBrush env,
            CalculateLayout (s\<lparr>pRenderTarget :=
                Some \<lparr>rt_hwnd = m_hwnd s,
                      rt_pixelSize =
                        SizeU (rc_right (client_rect env)) (rc_bottom (client_rect env)),
                      rt_dips = dips_of_pixels env\<rparr>,
              pBrush := Some \<lparr>brush_color = ColorF 1 0 0\<rparr>\<rparr>),
            [Call_CreateHwndRenderTarget (m_hwnd s)
               (SizeU (rc_right (client_rect env)) (rc_bottom (client_rect env))),
             Call_CreateSolidColorBrush (ColorF 1 0 0)]))"
proof (intro conjI impI)
  assume "pRenderTarget s \<noteq> None"
  then show "CreateGraphicsResources env s = Some (S_OK, s, [])"
    by (rule CreateGraphicsResources_existing)
next
  assume a: "CreateGraphicsResources env s = Some (hr, s', t) \<and> (s' \<noteq> s \<or> t \<noteq> [])"
  show "pRenderTarget s = None"
  proof (rule ccontr)
    assume "pRenderTarget s \<noteq> None"
    then have "CreateGraphicsResources env s = Some (S_OK, s, [])"
      by (rule CreateGraphicsResources_existing)
    with a have "Some (hr, s', t) = Some (S_OK, s, [])"
      by (simp only:)
    then have "s' = s \<and> t = []"
      by (simp only: option.inject prod.inject)
    with a show False by blast
  qed
next
  assume "pRenderTarget s = None \<and> pFactory s = Some f
        \<and> SUCCEEDED (hr_CreateHwndRenderTarget env)
        \<and> SUCCEEDED (hr_CreateSolidColorBrush env)"
  then show "CreateGraphicsResources env s =
          Some (hr_CreateSolidColorBrush env,
            CalculateLayout (s\<lparr>pRenderTarget :=
                Some \<lparr>rt_hwnd = m_hwnd s,
                      rt_pixelSize =
                        SizeU (rc_right (client_rect env)) (rc_bottom (client_rect env)),
                      rt_dips = dips_of_pixels env\<rparr>,
              pBrush := Some \<lparr>brush_color = ColorF 1 0 0\<rparr>\<rparr>),
            [Call_CreateHwndRenderTarget (m_hwnd s)
               (SizeU (rc_right (client_rect env)) (rc_bottom (client_rect env))),
             Call_CreateSolidColorBrush (ColorF 1 0 0)])"
    by (intro CreateGraphicsResources_fresh [where f = f]) simp_all
qed

theorem CreateGraphicsResources_lazy_witness:
  "pRenderTarget win_ready \<noteq> None
   \<and> CreateGraphicsResources env_ok win_ready = Some (S_OK, win_ready, [])
   \<and> pRenderTarget win_created = None \<and> pFactory win_created = Some factory_single
   \<and> SUCCEEDED (hr_CreateHwndRenderTarget env_ok)
   \<and> SUCCEEDED (hr_CreateSolidColorBrush env_ok)
   \<and> CreateGraphicsResources env_ok win_created =
       Some (S_OK, win_ready,
         [Call_CreateHwndRenderTarget 1 \<lparr>width = 800, height = 600\<rparr>,
          Call_CreateSolidColorBrush (ColorF 1 0 0)])
   \<and> win_ready \<noteq> win_created"
proof -
  have h1: "pRenderTarget win_ready \<noteq> None"
    by (simp add: win_ready_def)
  have h2: "pRenderTarget win_created = None \<and> pFactory win_created = Some factory_single
      \<and> SUCCEEDED (hr_CreateHwndRenderTarget env_ok)
      \<and> SUCCEEDED (hr_CreateSolidColorBrush env_ok)"
    by (simp add: win_created_def env_ok_def S_OK_def SUCCEEDED_def)
  have h3: "win_ready \<noteq> win_created"
    by (simp add: win_ready_def win_created_def)
  have result: "(hr_CreateSolidColorBrush env_ok,
      CalculateLayout (win_created\<lparr>pRenderTarget :=
                Some \<lparr>rt_hwnd = m_hwnd win_created,
                      rt_pixelSize =
                        SizeU (rc_right (client_rect env_ok)) (rc_bottom (client_rect env_ok)),
                      rt_dips = dips_of_pixels env_ok\<rparr>,
              pBrush := Some \<lparr>brush_color = ColorF 1 0 0\<rparr>\<rparr>),
      [Call_CreateHwndRenderTarget (m_hwnd win_created)
               (SizeU (rc_right (client_rect env_ok)) (rc_bottom (client_rect env_ok))),
             Call_CreateSolidColorBrush (ColorF 1 0 0)])
     = (S_OK, win_ready,
         [Call_CreateHwndRenderTarget 1 \<lparr>width = 800, height = 600\<rparr>,
          Call_CreateSolidColorBrush (ColorF 1 0 0)])"
    by (simp add: operation_defs input_defs helper_defs Let_def)
  have new: "CreateGraphicsResources env_ok win_created =
       Some (S_OK, win_ready,
         [Call_CreateHwndRenderTarget 1 \<lparr>width = 800, height = 600\<rparr>,
          Call_CreateSolidColorBrush (ColorF 1 0 0)])"
    using h2 CreateGraphicsResources_lazy [of win_created env_ok S_OK win_ready "[]" factory_single]
    unfolding result by blast
  have old: "CreateGraphicsResources env_ok win_ready = Some (S_OK, win_ready, [])"
    using h1 CreateGraphicsResources_lazy [of win_ready env_ok S_OK win_ready "[]" factory_single]
    by blast
  have "pRenderTarget win_created = None"
    using h3 new
      CreateGraphicsResources_lazy [of win_created env_ok S_OK win_ready
        "[Call_CreateHwndRenderTarget 1 \<lparr>width = 800, height = 600\<rparr>,
          Call_CreateSolidColorBrush (ColorF 1 0 0)]" factory_single]
    by blast
  then show ?thesis
    using h1 h2 h3 new old by blast
qed

subsection \<open>Releasing\<close>

text \<open>
  Claim C10. \<^verbatim>\<open>DiscardGraphicsResources\<close> is idempotent: after one call both
  \<^verbatim>\<open>pRenderTarget\<close> and \<^verbatim>\<open>pBrush\<close> are \<^verbatim>\<open>NULL\<close>, and a second call releases nothing and
  returns the same window, \<^verbatim>\<open>SafeRelease\<close> of a \<^verbatim>\<open>NULL\<close> pointer being no call and
  \<^verbatim>\<open>NULL\<close> again. So the cleanup of \<^verbatim>\<open>WM_DESTROY\<close> after a discard releases the
  factory alone.
\<close>

theorem DiscardGraphicsResources_idempotent:
  "pRenderTarget (fst (DiscardGraphicsResources s)) = None
   \<and> pBrush (fst (DiscardGraphicsResources s)) = None
   \<and> DiscardGraphicsResources (fst (DiscardGraphicsResources s))
       = (fst (DiscardGraphicsResources s), [])
   \<and> SafeRelease kind None = (None, [])
   \<and> HandleMessage env WM_DESTROY wParam lParam (fst (DiscardGraphicsResources s)) =
       Some (0, s\<lparr>pFactory := None, pRenderTarget := None, pBrush := None\<rparr>,
         (case pFactory s of None \<Rightarrow> [] | Some f \<Rightarrow> [Call_Release (Factory_object f)])
         @ [Call_PostQuitMessage 0])"
  by (simp add: HandleMessage_def DiscardGraphicsResources_def SafeRelease_def message_defs
        split: option.splits)

theorem DiscardGraphicsResources_idempotent_witness:
  "DiscardGraphicsResources win_ready =
     (win_ready\<lparr>pRenderTarget := None, pBrush := None\<rparr>,
      [Call_Release (RenderTarget_object target_800x600), Call_Release (Brush_object brush_red)])
   \<and> DiscardGraphicsResources (win_ready\<lparr>pRenderTarget := None, pBrush := None\<rparr>)
       = (win_ready\<lparr>pRenderTarget := None, pBrush := None\<rparr>, [])
   \<and> HandleMessage env_ok WM_DESTROY 0 0 (win_ready\<lparr>pRenderTarget := None, pBrush := None\<rparr>) =
       Some (0, win_ready\<lparr>pFactory := None, pRenderTarget := None, pBrush := None\<rparr>,
         [Call_Release (Factory_object factory_single), Call_PostQuitMessage 0])"
proof -
  have first: "DiscardGraphicsResources win_ready =
     (win_ready\<lparr>pRenderTarget := None, pBrush := None\<rparr>,
      [Call_Release (RenderTarget_object target_800x600), Call_Release (Brush_object brush_red)])"
    by (simp add: DiscardGraphicsResources_def SafeRelease_def win_ready_def)
  then have state: "fst (DiscardGraphicsResources win_ready)
      = win_ready\<lparr>pRenderTarget := None, pBrush := None\<rparr>"
    by (simp only: fst_conv)
  have factory: "(case pFactory win_ready of None \<Rightarrow> []
                  | Some f \<Rightarrow> [Call_Release (Factory_object f)]) @ [Call_PostQuitMessage 0]
      = [Call_Release (Factory_object factory_single), Call_PostQuitMessage 0]"
    by (simp add: win_ready_def)
  show ?thesis
    using first
      DiscardGraphicsResources_idempotent
        [where s = win_ready and kind = Brush_object and env = env_ok
           and wParam = 0 and lParam = 0]
    unfolding state factory by blast
qed

text \<open>
  Claim C6. On \<^verbatim>\<open>WM_DESTROY\<close>, \<^verbatim>\<open>HandleMessage\<close> releases each of the three interface
  pointers that the window holds (the render target, the brush, the factory, in this
  order), leaves all three \<^verbatim>\<open>NULL\<close> and every other field as it was, then calls
  \<^verbatim>\<open>PostQuitMessage(0)\<close>, and returns 0.
\<close>

theorem WM_DESTROY_releases_everything:
  "HandleMessage env WM_DESTROY wParam lParam s =
     Some (0, s\<lparr>pFactory := None, pRenderTarget := None, pBrush := None\<rparr>,
       (case pRenderTarget s of None \<Rightarrow> [] | Some rt \<Rightarrow> [Call_Release (RenderTarget_object rt)])
       @ (case pBrush s of None \<Rightarrow> [] | Some b \<Rightarrow> [Call_Release (Brush_object b)])
       @ (case pFactory s of None \<Rightarrow> [] | Some f \<Rightarrow> [Call_Release (Factory_object f)])
       @ [Call_PostQuitMessage 0])"
  by (simp add: HandleMessage_def DiscardGraphicsResources_def SafeRelease_def message_defs
        split: option.splits)

theorem WM_DESTROY_releases_everything_witness:
  "HandleMessage env_ok WM_DESTROY 0 0 win_ready =
     Some (0, win_ready\<lparr>pFactory := None, pRenderTarget := None, pBrush := None\<rparr>,
       [Call_Release (RenderTarget_object target_800x600),
        Call_Release (Brush_object brush_red),
        Call_Release (Factory_object factory_single),
        Call_PostQuitMessage 0])"
  using WM_DESTROY_releases_everything [of env_ok 0 0 win_ready]
  by (simp add: win_ready_def)

subsection \<open>Losing the device\<close>

text \<open>
  Claim C3. Take a paint that reaches the drawing calls: \<^verbatim>\<open>CreateGraphicsResources\<close>
  succeeded, leaving the window \<open>s1\<close> after the calls \<open>t1\<close>.

  \<^item> When \<^verbatim>\<open>EndDraw\<close> returns \<^verbatim>\<open>D2DERR_RECREATE_TARGET\<close> or any failing \<^verbatim>\<open>HRESULT\<close>,
    \<^verbatim>\<open>OnPaint\<close> discards the resources: after \<^verbatim>\<open>EndDraw\<close> it releases the render
    target and the brush it holds, and returns \<open>s1\<close> with both pointers \<^verbatim>\<open>NULL\<close>.
  \<^item> When \<^verbatim>\<open>EndDraw\<close> succeeds, \<^verbatim>\<open>OnPaint\<close> releases nothing and returns \<open>s1\<close>
    itself, which has its render target.
  \<^item> The next \<^verbatim>\<open>OnPaint\<close> on the discarded window, whatever the system answers then
    (\<open>env'\<close>), first creates the render target again. When both creations succeed, the
    render target and the red brush are created before \<^verbatim>\<open>BeginDraw\<close>, the layout is
    computed, and the circle is filled with the new brush. When the render target
    cannot be created the brush is not asked for, and when either creation fails
    nothing is drawn.
\<close>

theorem OnPaint_device_loss_recovery:
  assumes cgr: "CreateGraphicsResources env s = Some (hr, s1, t1)" and ok: "SUCCEEDED hr"
  shows "(FAILED (hr_EndDraw env) \<or> hr_EndDraw env = D2DERR_RECREATE_TARGET \<longrightarrow>
            (\<exists>rt. pRenderTarget s1 = Some rt
               \<and> OnPaint env s =
                   Some (s1\<lparr>pRenderTarget := None, pBrush := None\<rparr>,
                     t1 @ [Call_BeginPaint (m_hwnd s1), Call_BeginDraw,
                           Call_Clear (ColorF_known BlanchedAlmond),
                           Call_FillEllipse (ellipse s1) (pBrush s1), Call_EndDraw,
                           Call_Release (RenderTarget_object rt)]
                     @ (case pBrush s1 of None \<Rightarrow> []
                        | Some b \<Rightarrow> [Call_Release (Brush_object b)])
                     @ [Call_EndPaint (m_hwnd s1)])))
       \<and> (SUCCEEDED (hr_EndDraw env) \<longrightarrow>
            pRenderTarget s1 \<noteq> None
            \<and> OnPaint env s =
                Some (s1,
                  t1 @ [Call_BeginPaint (m_hwnd s1), Call_BeginDraw,
                        Call_Clear (ColorF_known BlanchedAlmond),
                        Call_FillEllipse (ellipse s1) (pBrush s1), Call_EndDraw,
                        Call_EndPaint (m_hwnd s1)]))
       \<and> (pFactory s1 = Some f \<and> SUCCEEDED (hr_CreateHwndRenderTarget env')
            \<and> SUCCEEDED (hr_CreateSolidColorBrush env') \<longrightarrow>
            (let sz = SizeU (rc_right (client_rect env')) (rc_bottom (client_rect env'));
                 target = \<lparr>rt_hwnd = m_hwnd s1, rt_pixelSize = sz,
                           rt_dips = dips_of_pixels env'\<rparr>;
                 brush = \<lparr>brush_color = ColorF 1 0 0\<rparr>;
                 s2 = CalculateLayout (s1\<lparr>pRenderTarget := Some target, pBrush := Some brush\<rparr>);
                 lost = (FAILED (hr_EndDraw env') \<or> hr_EndDraw env' = D2DERR_RECREATE_TARGET)
             in OnPaint env' (s1\<lparr>pRenderTarget := None, pBrush := None\<rparr>) =
                  Some (if lost then s2\<lparr>pRenderTarget := None, pBrush := None\<rparr> else s2,
                    [Call_CreateHwndRenderTarget (m_hwnd s1) sz,
                     Call_CreateSolidColorBrush (ColorF 1 0 0),
                     Call_BeginPaint (m_hwnd s1), Call_BeginDraw,
                     Call_Clear (ColorF_known BlanchedAlmond),
                     Call_FillEllipse (ellipse s2) (Some brush), Call_EndDraw]
                    @ (if lost then [Call_Release (RenderTarget_object target),
                                     Call_Release (Brush_object brush)] else [])
                    @ [Call_EndPaint (m_hwnd s1)])
                \<and> pRenderTarget s2 = Some target \<and> pBrush s2 = Some brush
                \<and> radiusX (ellipse s2) = radiusY (ellipse s2)))
       \<and> (pFactory s1 = Some f \<and> \<not> SUCCEEDED (hr_CreateHwndRenderTarget env') \<longrightarrow>
            OnPaint env' (s1\<lparr>pRenderTarget := None, pBrush := None\<rparr>) =
              Some (s1\<lparr>pRenderTarget := None, pBrush := None\<rparr>,
                [Call_CreateHwndRenderTarget (m_hwnd s1)
                   (SizeU (rc_right (client_rect env')) (rc_bottom (client_rect env')))]))
       \<and> (pFactory s1 = Some f \<and> SUCCEEDED (hr_CreateHwndRenderTarget env')
            \<and> \<not> SUCCEEDED (hr_CreateSolidColorBrush env') \<longrightarrow>
            OnPaint env' (s1\<lparr>pRenderTarget := None, pBrush := None\<rparr>) =
              Some (s1\<lparr>pRenderTarget :=
                        Some \<lparr>rt_hwnd = m_hwnd s1,
                              rt_pixelSize = SizeU (rc_right (client_rect env'))
                                               (rc_bottom (client_rect env')),
                              rt_dips = dips_of_pixels env'\<rparr>,
                      pBrush := None\<rparr>,
                [Call_CreateHwndRenderTarget (m_hwnd s1)
                   (SizeU (rc_right (client_rect env')) (rc_bottom (client_rect env'))),
                 Call_CreateSolidColorBrush (ColorF 1 0 0)]))"
proof (intro conjI impI)
  from OnPaint_result [OF cgr ok] obtain rt
    where rt: "pRenderTarget s1 = Some rt"
      and res: "OnPaint env s =
             Some (if FAILED (hr_EndDraw env) \<or> hr_EndDraw env = D2DERR_RECREATE_TARGET
                   then s1\<lparr>pRenderTarget := None, pBrush := None\<rparr> else s1,
               t1 @ [Call_BeginPaint (m_hwnd s1), Call_BeginDraw,
                     Call_Clear (ColorF_known BlanchedAlmond),
                     Call_FillEllipse (ellipse s1) (pBrush s1), Call_EndDraw]
               @ (if FAILED (hr_EndDraw env) \<or> hr_EndDraw env = D2DERR_RECREATE_TARGET
                  then Call_Release (RenderTarget_object rt)
                       # (case pBrush s1 of None \<Rightarrow> []
                          | Some b \<Rightarrow> [Call_Release (Brush_object b)])
                  else [])
               @ [Call_EndPaint (m_hwnd s1)])"
    by blast
  {
    assume "FAILED (hr_EndDraw env) \<or> hr_EndDraw env = D2DERR_RECREATE_TARGET"
    with rt res
    show "\<exists>rt. pRenderTarget s1 = Some rt
               \<and> OnPaint env s =
                   Some (s1\<lparr>pRenderTarget := None, pBrush := None\<rparr>,
                     t1 @ [Call_BeginPaint (m_hwnd s1), Call_BeginDraw,
                           Call_Clear (ColorF_known BlanchedAlmond),
                           Call_FillEllipse (ellipse s1) (pBrush s1), Call_EndDraw,
                           Call_Release (RenderTarget_object rt)]
                     @ (case pBrush s1 of None \<Rightarrow> []
                        | Some b \<Rightarrow> [Call_Release (Brush_object b)])
                     @ [Call_EndPaint (m_hwnd s1)])"
      by simp
  }
  {
    assume "SUCCEEDED (hr_EndDraw env)"
    then have "\<not> (FAILED (hr_EndDraw env) \<or> hr_EndDraw env = D2DERR_RECREATE_TARGET)"
      by (rule SUCCEEDED_not_lost)
    with res
    show "OnPaint env s =
                Some (s1,
                  t1 @ [Call_BeginPaint (m_hwnd s1), Call_BeginDraw,
                        Call_Clear (ColorF_known BlanchedAlmond),
                        Call_FillEllipse (ellipse s1) (pBrush s1), Call_EndDraw,
                        Call_EndPaint (m_hwnd s1)])"
      by simp
    show "pRenderTarget s1 \<noteq> None" using rt by simp
  }
  let ?s0 = "s1\<lparr>pRenderTarget := None, pBrush := None\<rparr>"
  let ?sz = "SizeU (rc_right (client_rect env')) (rc_bottom (client_rect env'))"
  let ?target = "\<lparr>rt_hwnd = m_hwnd s1, rt_pixelSize = ?sz, rt_dips = dips_of_pixels env'\<rparr>"
  let ?brush = "\<lparr>brush_color = ColorF 1 0 0\<rparr>"
  let ?s2 = "CalculateLayout (s1\<lparr>pRenderTarget := Some ?target, pBrush := Some ?brush\<rparr>)"
  {
    assume a: "pFactory s1 = Some f \<and> SUCCEEDED (hr_CreateHwndRenderTarget env')
            \<and> SUCCEEDED (hr_CreateSolidColorBrush env')"
    have fresh: "CreateGraphicsResources env' ?s0 =
        Some (hr_CreateSolidColorBrush env', ?s2,
          [Call_CreateHwndRenderTarget (m_hwnd s1) ?sz,
           Call_CreateSolidColorBrush (ColorF 1 0 0)])"
      using a CreateGraphicsResources_fresh [of ?s0 f env'] by simp
    have fields: "pRenderTarget ?s2 = Some ?target" "pBrush ?s2 = Some ?brush"
      "m_hwnd ?s2 = m_hwnd s1"
      by (simp_all add: CalculateLayout_fields)
    have radii: "radiusX (ellipse ?s2) = radiusY (ellipse ?s2)"
      by (rule CalculateLayout_radii) simp
    from a have "SUCCEEDED (hr_CreateSolidColorBrush env')" by simp
    from OnPaint_result [OF fresh this] fields radii
    show "let sz = SizeU (rc_right (client_rect env')) (rc_bottom (client_rect env'));
                 target = \<lparr>rt_hwnd = m_hwnd s1, rt_pixelSize = sz,
                           rt_dips = dips_of_pixels env'\<rparr>;
                 brush = \<lparr>brush_color = ColorF 1 0 0\<rparr>;
                 s2 = CalculateLayout (s1\<lparr>pRenderTarget := Some target, pBrush := Some brush\<rparr>);
                 lost = (FAILED (hr_EndDraw env') \<or> hr_EndDraw env' = D2DERR_RECREATE_TARGET)
             in OnPaint env' (s1\<lparr>pRenderTarget := None, pBrush := None\<rparr>) =
                  Some (if lost then s2\<lparr>pRenderTarget := None, pBrush := None\<rparr> else s2,
                    [Call_CreateHwndRenderTarget (m_hwnd s1) sz,
                     Call_CreateSolidColorBrush (ColorF 1 0 0),
                     Call_BeginPaint (m_hwnd s1), Call_BeginDraw,
                     Call_Clear (ColorF_known BlanchedAlmond),
                     Call_FillEllipse (ellipse s2) (Some brush), Call_EndDraw]
                    @ (if lost then [Call_Release (RenderTarget_object target),
                                     Call_Release (Brush_object brush)] else [])
                    @ [Call_EndPaint (m_hwnd s1)])
                \<and> pRenderTarget s2 = Some target \<and> pBrush s2 = Some brush
                \<and> radiusX (ellipse s2) = radiusY (ellipse s2)"
      by (auto simp: Let_def)
  }
  {
    assume "pFactory s1 = Some f \<and> \<not> SUCCEEDED (hr_CreateHwndRenderTarget env')"
    then show "OnPaint env' ?s0 = Some (?s0, [Call_CreateHwndRenderTarget (m_hwnd s1) ?sz])"
      by (simp add: OnPaint_def CreateGraphicsResources_def CreateHwndRenderTarget_def Let_def)
  }
  {
    assume "pFactory s1 = Some f \<and> SUCCEEDED (hr_CreateHwndRenderTarget env')
            \<and> \<not> SUCCEEDED (hr_CreateSolidColorBrush env')"
    then show "OnPaint env' ?s0 =
              Some (s1\<lparr>pRenderTarget := Some ?target, pBrush := None\<rparr>,
                [Call_CreateHwndRenderTarget (m_hwnd s1) ?sz,
                 Call_CreateSolidColorBrush (ColorF 1 0 0)])"
      by (simp add: OnPaint_def CreateGraphicsResources_def CreateHwndRenderTarget_def
            CreateSolidColorBrush_def Let_def)
  }
qed

theorem OnPaint_device_loss_recovery_witness:
  "CreateGraphicsResources env_device_lost win_ready = Some (S_OK, win_ready, [])
   \<and> CreateGraphicsResources env_ok win_ready = Some (S_OK, win_ready, [])
   \<and> SUCCEEDED S_OK
   \<and> (FAILED (hr_EndDraw env_device_lost)
        \<or> hr_EndDraw env_device_lost = D2DERR_RECREATE_TARGET)
   \<and> OnPaint env_device_lost win_ready =
       Some (win_ready\<lparr>pRenderTarget := None, pBrush := None\<rparr>,
         [Call_BeginPaint 1, Call_BeginDraw, Call_Clear (ColorF_known BlanchedAlmond),
          Call_FillEllipse circle_800x600 (Some brush_red), Call_EndDraw,
          Call_Release (RenderTarget_object target_800x600),
          Call_Release (Brush_object brush_red),
          Call_EndPaint 1])
   \<and> SUCCEEDED (hr_EndDraw env_ok)
   \<and> OnPaint env_ok win_ready =
       Some (win_ready,
         [Call_BeginPaint 1, Call_BeginDraw, Call_Clear (ColorF_known BlanchedAlmond),
          Call_FillEllipse circle_800x600 (Some brush_red), Call_EndDraw, Call_EndPaint 1])
   \<and> pFactory win_ready = Some factory_single
   \<and> SUCCEEDED (hr_CreateHwndRenderTarget env_ok)
   \<and> SUCCEEDED (hr_CreateSolidColorBrush env_ok)
   \<and> OnPaint env_ok (win_ready\<lparr>pRenderTarget := None, pBrush := None\<rparr>) =
       Some (win_ready,
         [Call_CreateHwndRenderTarget 1 \<lparr>width = 800, height = 600\<rparr>,
          Call_CreateSolidColorBrush (ColorF 1 0 0),
          Call_BeginPaint 1, Call_BeginDraw, Call_Clear (ColorF_known BlanchedAlmond),
          Call_FillEllipse circle_800x600 (Some brush_red), Call_EndDraw, Call_EndPaint 1])
   \<and> \<not> SUCCEEDED (hr_CreateHwndRenderTarget env_target_fails)
   \<and> OnPaint env_target_fails (win_ready\<lparr>pRenderTarget := None, pBrush := None\<rparr>) =
       Some (win_ready\<lparr>pRenderTarget := None, pBrush := None\<rparr>,
         [Call_CreateHwndRenderTarget 1 \<lparr>width = 800, height = 600\<rparr>])
   \<and> SUCCEEDED (hr_CreateHwndRenderTarget env_brush_fails)
   \<and> \<not> SUCCEEDED (hr_CreateSolidColorBrush env_brush_fails)
   \<and> OnPaint env_brush_fails (win_ready\<lparr>pRenderTarget := None, pBrush := None\<rparr>) =
       Some (win_ready\<lparr>pBrush := None\<rparr>,
         [Call_CreateHwndRenderTarget 1 \<lparr>width = 800, height = 600\<rparr>,
          Call_CreateSolidColorBrush (ColorF 1 0 0)])"
proof -
  have c1: "CreateGraphicsResources env_device_lost win_ready = Some (S_OK, win_ready, [])"
    by (rule CreateGraphicsResources_existing) (simp add: win_ready_def)
  have c2: "CreateGraphicsResources env_ok win_ready = Some (S_OK, win_ready, [])"
    by (rule CreateGraphicsResources_existing) (simp add: win_ready_def)
  have ok: "SUCCEEDED S_OK"
    by (simp add: SUCCEEDED_def S_OK_def)
  have lost: "FAILED (hr_EndDraw env_device_lost)
        \<or> hr_EndDraw env_device_lost = D2DERR_RECREATE_TARGET"
    by (simp add: env_device_lost_def)
  have fac: "pFactory win_ready = Some factory_single"
    by (simp add: win_ready_def)
  have good: "SUCCEEDED (hr_CreateHwndRenderTarget env_ok)
      \<and> SUCCEEDED (hr_CreateSolidColorBrush env_ok) \<and> SUCCEEDED (hr_EndDraw env_ok)"
    by (simp add: env_ok_def SUCCEEDED_def S_OK_def)
  have no_target: "\<not> SUCCEEDED (hr_CreateHwndRenderTarget env_target_fails)"
    by (simp add: env_target_fails_def env_ok_def SUCCEEDED_def E_OUTOFMEMORY_def)
  have no_brush: "SUCCEEDED (hr_CreateHwndRenderTarget env_brush_fails)
      \<and> \<not> SUCCEEDED (hr_CreateSolidColorBrush env_brush_fails)"
    by (simp add: env_brush_fails_def env_ok_def SUCCEEDED_def E_OUTOFMEMORY_def S_OK_def)
  have discarded: "OnPaint env_device_lost win_ready =
       Some (win_ready\<lparr>pRenderTarget := None, pBrush := None\<rparr>,
         [Call_BeginPaint 1, Call_BeginDraw, Call_Clear (ColorF_known BlanchedAlmond),
          Call_FillEllipse circle_800x600 (Some brush_red), Call_EndDraw,
          Call_Release (RenderTarget_object target_800x600),
          Call_Release (Brush_object brush_red),
          Call_EndPaint 1])"
    using lost OnPaint_device_loss_recovery [OF c1 ok, of factory_single env_ok]
    by (simp add: input_defs FAILED_def)
  have kept: "OnPaint env_ok win_ready =
       Some (win_ready,
         [Call_BeginPaint 1, Call_BeginDraw, Call_Clear (ColorF_known BlanchedAlmond),
          Call_FillEllipse circle_800x600 (Some brush_red), Call_EndDraw, Call_EndPaint 1])"
    using good OnPaint_device_loss_recovery [OF c2 ok, of factory_single env_ok]
    by (simp add: input_defs SUCCEEDED_def)
  have recreated: "OnPaint env_ok (win_ready\<lparr>pRenderTarget := None, pBrush := None\<rparr>) =
       Some (win_ready,
         [Call_CreateHwndRenderTarget 1 \<lparr>width = 800, height = 600\<rparr>,
          Call_CreateSolidColorBrush (ColorF 1 0 0),
          Call_BeginPaint 1, Call_BeginDraw, Call_Clear (ColorF_known BlanchedAlmond),
          Call_FillEllipse circle_800x600 (Some brush_red), Call_EndDraw, Call_EndPaint 1])"
    using fac good OnPaint_device_loss_recovery [OF c1 ok, of factory_single env_ok]
    by (simp add: Let_def CalculateLayout_def GetSize_def min_macro_def input_defs
          helper_defs FAILED_def SUCCEEDED_def)
  have target_failed:
    "OnPaint env_target_fails (win_ready\<lparr>pRenderTarget := None, pBrush := None\<rparr>) =
       Some (win_ready\<lparr>pRenderTarget := None, pBrush := None\<rparr>,
         [Call_CreateHwndRenderTarget 1 \<lparr>width = 800, height = 600\<rparr>])"
    using fac no_target OnPaint_device_loss_recovery [OF c1 ok, of factory_single env_target_fails]
    by (simp add: input_defs helper_defs SUCCEEDED_def)
  have brush_failed:
    "OnPaint env_brush_fails (win_ready\<lparr>pRenderTarget := None, pBrush := None\<rparr>) =
       Some (win_ready\<lparr>pBrush := None\<rparr>,
         [Call_CreateHwndRenderTarget 1 \<lparr>width = 800, height = 600\<rparr>,
          Call_CreateSolidColorBrush (ColorF 1 0 0)])"
    using fac no_brush OnPaint_device_loss_recovery [OF c1 ok, of factory_single env_brush_fails]
    by (simp add: input_defs helper_defs SUCCEEDED_def)
  show ?thesis
    using c1 c2 ok lost fac good no_target no_brush discarded kept recreated target_failed
      brush_failed
    by blast
qed

text \<open>
  Claim C7, as the code has it. The failure-recovery logic drops and recreates the two
  device-dependent resource pointers. When the device-loss branch of \<^verbatim>\<open>OnPaint\<close> runs,
  the render target and the brush that the window holds are released and both
  pointers, \<^verbatim>\<open>pRenderTarget\<close> and \<^verbatim>\<open>pBrush\<close>, are \<^verbatim>\<open>NULL\<close> afterwards; the branch changes
  no other field: the window returned is the one \<^verbatim>\<open>CreateGraphicsResources\<close> left
  (\<open>s1\<close>, with the factory and the window handle \<^verbatim>\<open>OnPaint\<close> started with) but for
  the two pointers, and when the render target existed before the paint it is the
  window \<^verbatim>\<open>OnPaint\<close> started with but for the two pointers. The next \<^verbatim>\<open>OnPaint\<close>
  in which the two creations and \<^verbatim>\<open>EndDraw\<close> succeed creates both again: it returns
  a window that holds a new render target and a new red brush, with the factory and the
  window handle unchanged.
\<close>

theorem device_loss_resets_both_resources:
  assumes cgr: "CreateGraphicsResources env s = Some (hr, s1, t1)" and ok: "SUCCEEDED hr"
    and lost: "FAILED (hr_EndDraw env) \<or> hr_EndDraw env = D2DERR_RECREATE_TARGET"
  shows "(\<exists>rt. pRenderTarget s1 = Some rt
            \<and> OnPaint env s =
                Some (s1\<lparr>pRenderTarget := None, pBrush := None\<rparr>,
                  t1 @ [Call_BeginPaint (m_hwnd s1), Call_BeginDraw,
                        Call_Clear (ColorF_known BlanchedAlmond),
                        Call_FillEllipse (ellipse s1) (pBrush s1), Call_EndDraw,
                        Call_Release (RenderTarget_object rt)]
                  @ (case pBrush s1 of None \<Rightarrow> []
                     | Some b \<Rightarrow> [Call_Release (Brush_object b)])
                  @ [Call_EndPaint (m_hwnd s1)]))
       \<and> pFactory s1 = pFactory s \<and> m_hwnd s1 = m_hwnd s
       \<and> (pRenderTarget s \<noteq> None \<longrightarrow> s1 = s \<and> t1 = [])
       \<and> (pFactory s = Some f \<and> SUCCEEDED (hr_CreateHwndRenderTarget env')
            \<and> SUCCEEDED (hr_CreateSolidColorBrush env') \<and> SUCCEEDED (hr_EndDraw env') \<longrightarrow>
            (\<exists>s3. OnPaint env' (s1\<lparr>pRenderTarget := None, pBrush := None\<rparr>) =
                    Some (s3,
                      [Call_CreateHwndRenderTarget (m_hwnd s)
                         (SizeU (rc_right (client_rect env')) (rc_bottom (client_rect env'))),
                       Call_CreateSolidColorBrush (ColorF 1 0 0),
                       Call_BeginPaint (m_hwnd s), Call_BeginDraw,
                       Call_Clear (ColorF_known BlanchedAlmond),
                       Call_FillEllipse (ellipse s3) (Some \<lparr>brush_color = ColorF 1 0 0\<rparr>),
                       Call_EndDraw, Call_EndPaint (m_hwnd s)])
               \<and> pRenderTarget s3 =
                   Some \<lparr>rt_hwnd = m_hwnd s,
                         rt_pixelSize = SizeU (rc_right (client_rect env'))
                                          (rc_bottom (client_rect env')),
                         rt_dips = dips_of_pixels env'\<rparr>
               \<and> pBrush s3 = Some \<lparr>brush_color = ColorF 1 0 0\<rparr>
               \<and> pFactory s3 = pFactory s \<and> m_hwnd s3 = m_hwnd s))"
proof (intro conjI impI)
  note fields = CreateGraphicsResources_fields [OF cgr]
  show "pFactory s1 = pFactory s" and "m_hwnd s1 = m_hwnd s"
    by (rule fields)+
  show "\<exists>rt. pRenderTarget s1 = Some rt
            \<and> OnPaint env s =
                Some (s1\<lparr>pRenderTarget := None, pBrush := None\<rparr>,
                  t1 @ [Call_BeginPaint (m_hwnd s1), Call_BeginDraw,
                        Call_Clear (ColorF_known BlanchedAlmond),
                        Call_FillEllipse (ellipse s1) (pBrush s1), Call_EndDraw,
                        Call_Release (RenderTarget_object rt)]
                  @ (case pBrush s1 of None \<Rightarrow> []
                     | Some b \<Rightarrow> [Call_Release (Brush_object b)])
                  @ [Call_EndPaint (m_hwnd s1)])"
    using OnPaint_result [OF cgr ok] lost by auto
  {
    assume "pRenderTarget s \<noteq> None"
    then have "CreateGraphicsResources env s = Some (S_OK, s, [])"
      by (rule CreateGraphicsResources_existing)
    with cgr have "Some (hr, s1, t1) = Some (S_OK, s, [])"
      by (simp only:)
    then show "s1 = s" and "t1 = []"
      by (simp_all only: option.inject prod.inject)
  }
  let ?s0 = "s1\<lparr>pRenderTarget := None, pBrush := None\<rparr>"
  let ?sz = "SizeU (rc_right (client_rect env')) (rc_bottom (client_rect env'))"
  let ?target = "\<lparr>rt_hwnd = m_hwnd s, rt_pixelSize = ?sz, rt_dips = dips_of_pixels env'\<rparr>"
  let ?brush = "\<lparr>brush_color = ColorF 1 0 0\<rparr>"
  let ?s2 = "CalculateLayout (s1\<lparr>pRenderTarget := Some ?target, pBrush := Some ?brush\<rparr>)"
  {
    assume a: "pFactory s = Some f \<and> SUCCEEDED (hr_CreateHwndRenderTarget env')
            \<and> SUCCEEDED (hr_CreateSolidColorBrush env') \<and> SUCCEEDED (hr_EndDraw env')"
    have fresh: "CreateGraphicsResources env' ?s0 =
        Some (hr_CreateSolidColorBrush env', ?s2,
          [Call_CreateHwndRenderTarget (m_hwnd s) ?sz,
           Call_CreateSolidColorBrush (ColorF 1 0 0)])"
      using a fields CreateGraphicsResources_fresh [of ?s0 f env'] by simp
    have keep: "\<not> (FAILED (hr_EndDraw env') \<or> hr_EndDraw env' = D2DERR_RECREATE_TARGET)"
      using a SUCCEEDED_not_lost by blast
    from a have "SUCCEEDED (hr_CreateSolidColorBrush env')" by simp
    from OnPaint_result [OF fresh this] keep
    have "OnPaint env' ?s0 =
        Some (?s2,
          [Call_CreateHwndRenderTarget (m_hwnd s) ?sz,
           Call_CreateSolidColorBrush (ColorF 1 0 0),
           Call_BeginPaint (m_hwnd s), Call_BeginDraw,
           Call_Clear (ColorF_known BlanchedAlmond),
           Call_FillEllipse (ellipse ?s2) (Some ?brush),
           Call_EndDraw, Call_EndPaint (m_hwnd s)])"
      using fields by (auto simp: CalculateLayout_fields)
    moreover have "pRenderTarget ?s2 = Some ?target" "pBrush ?s2 = Some ?brush"
      "pFactory ?s2 = pFactory s" "m_hwnd ?s2 = m_hwnd s"
      using fields by (simp_all add: CalculateLayout_fields)
    ultimately
    show "\<exists>s3. OnPaint env' (s1\<lparr>pRenderTarget := None, pBrush := None\<rparr>) =
                    Some (s3,
                      [Call_CreateHwndRenderTarget (m_hwnd s)
                         (SizeU (rc_right (client_rect env')) (rc_bottom (client_rect env'))),
                       Call_CreateSolidColorBrush (ColorF 1 0 0),
                       Call_BeginPaint (m_hwnd s), Call_BeginDraw,
                       Call_Clear (ColorF_known BlanchedAlmond),
                       Call_FillEllipse (ellipse s3) (Some \<lparr>brush_color = ColorF 1 0 0\<rparr>),
                       Call_EndDraw, Call_EndPaint (m_hwnd s)])
               \<and> pRenderTarget s3 =
                   Some \<lparr>rt_hwnd = m_hwnd s,
                         rt_pixelSize = SizeU (rc_right (client_rect env'))
                                          (rc_bottom (client_rect env')),
                         rt_dips = dips_of_pixels env'\<rparr>
               \<and> pBrush s3 = Some \<lparr>brush_color = ColorF 1 0 0\<rparr>
               \<and> pFactory s3 = pFactory s \<and> m_hwnd s3 = m_hwnd s"
      by blast
  }
qed

theorem device_loss_resets_both_resources_witness:
  "CreateGraphicsResources env_device_lost win_ready = Some (S_OK, win_ready, [])
   \<and> SUCCEEDED S_OK
   \<and> (FAILED (hr_EndDraw env_device_lost)
        \<or> hr_EndDraw env_device_lost = D2DERR_RECREATE_TARGET)
   \<and> pRenderTarget win_ready \<noteq> None
   \<and> OnPaint env_device_lost win_ready =
       Some (win_ready\<lparr>pRenderTarget := None, pBrush := None\<rparr>,
         [Call_BeginPaint 1, Call_BeginDraw, Call_Clear (ColorF_known BlanchedAlmond),
          Call_FillEllipse circle_800x600 (Some brush_red), Call_EndDraw,
          Call_Release (RenderTarget_object target_800x600),
          Call_Release (Brush_object brush_red),
          Call_EndPaint 1])
   \<and> pFactory win_ready = Some factory_single
   \<and> SUCCEEDED (hr_CreateHwndRenderTarget env_ok)
   \<and> SUCCEEDED (hr_CreateSolidColorBrush env_ok) \<and> SUCCEEDED (hr_EndDraw env_ok)
   \<and> (\<exists>s3 t3. OnPaint env_ok (win_ready\<lparr>pRenderTarget := None, pBrush := None\<rparr>) =
                 Some (s3, t3)
         \<and> pRenderTarget s3 = Some target_800x600 \<and> pBrush s3 = Some brush_red
         \<and> pFactory s3 = pFactory win_ready \<and> m_hwnd s3 = m_hwnd win_ready)"
proof -
  have c1: "CreateGraphicsResources env_device_lost win_ready = Some (S_OK, win_ready, [])"
    by (rule CreateGraphicsResources_existing) (simp add: win_ready_def)
  have ok: "SUCCEEDED S_OK"
    by (simp add: SUCCEEDED_def S_OK_def)
  have lost: "FAILED (hr_EndDraw env_device_lost)
        \<or> hr_EndDraw env_device_lost = D2DERR_RECREATE_TARGET"
    by (simp add: env_device_lost_def)
  have held: "pRenderTarget win_ready \<noteq> None"
    by (simp add: win_ready_def)
  have fac: "pFactory win_ready = Some factory_single"
    by (simp add: win_ready_def)
  have good: "SUCCEEDED (hr_CreateHwndRenderTarget env_ok)
      \<and> SUCCEEDED (hr_CreateSolidColorBrush env_ok) \<and> SUCCEEDED (hr_EndDraw env_ok)"
    by (simp add: env_ok_def SUCCEEDED_def S_OK_def)
  have new: "\<lparr>rt_hwnd = m_hwnd win_ready,
        rt_pixelSize = SizeU (rc_right (client_rect env_ok)) (rc_bottom (client_rect env_ok)),
        rt_dips = dips_of_pixels env_ok\<rparr> = target_800x600"
      "\<lparr>brush_color = ColorF 1 0 0\<rparr> = brush_red"
    by (simp_all add: win_ready_def env_ok_def target_800x600_def brush_red_def helper_defs)
  note inst = device_loss_resets_both_resources [OF c1 ok lost, of factory_single env_ok]
  have recreated: "\<exists>s3 t3. OnPaint env_ok (win_ready\<lparr>pRenderTarget := None, pBrush := None\<rparr>) =
                 Some (s3, t3)
         \<and> pRenderTarget s3 = Some target_800x600 \<and> pBrush s3 = Some brush_red
         \<and> pFactory s3 = pFactory win_ready \<and> m_hwnd s3 = m_hwnd win_ready"
    using inst fac good unfolding new by blast
  have discarded: "OnPaint env_device_lost win_ready =
       Some (win_ready\<lparr>pRenderTarget := None, pBrush := None\<rparr>,
         [Call_BeginPaint 1, Call_BeginDraw, Call_Clear (ColorF_known BlanchedAlmond),
          Call_FillEllipse circle_800x600 (Some brush_red), Call_EndDraw,
          Call_Release (RenderTarget_object target_800x600),
          Call_Release (Brush_object brush_red),
          Call_EndPaint 1])"
    using inst by (simp add: input_defs)
  show ?thesis
    using c1 ok lost held fac good discarded recreated by blast
qed

text \<open>
  The claim says that exactly one resource pointer is reset. At the window after a
  complete first paint, with \<^verbatim>\<open>EndDraw\<close> answering \<^verbatim>\<open>D2DERR_RECREATE_TARGET\<close>, two
  pointers that were set are released and reset.
\<close>

theorem device_loss_one_pointer_counterexample:
  "OnPaint env_device_lost win_ready =
     Some (win_ready\<lparr>pRenderTarget := None, pBrush := None\<rparr>,
       [Call_BeginPaint 1, Call_BeginDraw, Call_Clear (ColorF_known BlanchedAlmond),
        Call_FillEllipse circle_800x600 (Some brush_red), Call_EndDraw,
        Call_Release (RenderTarget_object target_800x600),
        Call_Release (Brush_object brush_red),
        Call_EndPaint 1])
   \<and> pRenderTarget win_ready = Some target_800x600 \<and> pBrush win_ready = Some brush_red"
  by (simp add: operation_defs input_defs helper_defs Let_def)

subsection \<open>Resizing\<close>

text \<open>
  Claim C4, as the code has it. For every \<^verbatim>\<open>WM_SIZE\<close> message received while the
  render target exists, \<^verbatim>\<open>Resize\<close> of the render target is called with the size of
  the new client-area rectangle, the circle is laid out again from the size that the
  render target reports after that call (centre at half the width and half the
  height, both radii the smaller half), and \<^verbatim>\<open>InvalidateRect\<close> forces a repaint of the
  whole client area; nothing else of the window changes and the message is answered
  with 0. When the call of \<^verbatim>\<open>Resize\<close> succeeds, the render target has the new size, so
  that the layout is the one of the new client area. While \<^verbatim>\<open>pRenderTarget\<close> is
  \<^verbatim>\<open>NULL\<close>, a \<^verbatim>\<open>WM_SIZE\<close> message changes nothing and makes no call.
\<close>

theorem WM_SIZE_relayout:
  "(pRenderTarget s = Some rt \<longrightarrow>
      (\<exists>target.
         (let sz = SizeU (rc_right (client_rect env)) (rc_bottom (client_rect env));
              w = width (GetSize target);
              h = height (GetSize target)
          in HandleMessage env WM_SIZE wParam lParam s =
               Some (0,
                 s\<lparr>pRenderTarget := Some target,
                   ellipse := \<lparr>point = \<lparr>pt_x = w / 2, pt_y = h / 2\<rparr>,
                                radiusX = min (w / 2) (h / 2),
                                radiusY = min (w / 2) (h / 2)\<rparr>\<rparr>,
                 [Call_Resize sz, Call_InvalidateRect (m_hwnd s) None False])
             \<and> (SUCCEEDED (hr_Resize env) \<longrightarrow> target = rt\<lparr>rt_pixelSize := sz\<rparr>))))
   \<and> (pRenderTarget s = None \<longrightarrow>
        HandleMessage env WM_SIZE wParam lParam s = Some (0, s, []))"
proof (intro conjI impI)
  assume "pRenderTarget s = None"
  then show "HandleMessage env WM_SIZE wParam lParam s = Some (0, s, [])"
    by (simp add: HandleMessage_def Resize_def message_defs)
next
  let ?sz = "SizeU (rc_right (client_rect env)) (rc_bottom (client_rect env))"
  let ?target = "snd (Resize_target env ?sz rt)"
  assume rt: "pRenderTarget s = Some rt"
  have success: "SUCCEEDED (hr_Resize env) \<longrightarrow> ?target = rt\<lparr>rt_pixelSize := ?sz\<rparr>"
    by (simp add: Resize_target_def Let_def)
  have "HandleMessage env WM_SIZE wParam lParam s =
      Some (0,
        s\<lparr>pRenderTarget := Some ?target,
          ellipse := \<lparr>point = \<lparr>pt_x = width (GetSize ?target) / 2,
                                 pt_y = height (GetSize ?target) / 2\<rparr>,
                       radiusX = min (width (GetSize ?target) / 2) (height (GetSize ?target) / 2),
                       radiusY = min (width (GetSize ?target) / 2) (height (GetSize ?target) / 2)\<rparr>\<rparr>,
        [Call_Resize ?sz, Call_InvalidateRect (m_hwnd s) None False])"
    using rt
    by (simp add: HandleMessage_def Resize_def CalculateLayout_def message_defs
          Point2F_def Ellipse_def min_macro_min Let_def split: prod.splits)
  with success
  show "\<exists>target.
         (let sz = SizeU (rc_right (client_rect env)) (rc_bottom (client_rect env));
              w = width (GetSize target);
              h = height (GetSize target)
          in HandleMessage env WM_SIZE wParam lParam s =
               Some (0,
                 s\<lparr>pRenderTarget := Some target,
                   ellipse := \<lparr>point = \<lparr>pt_x = w / 2, pt_y = h / 2\<rparr>,
                                radiusX = min (w / 2) (h / 2),
                                radiusY = min (w / 2) (h / 2)\<rparr>\<rparr>,
                 [Call_Resize sz, Call_InvalidateRect (m_hwnd s) None False])
             \<and> (SUCCEEDED (hr_Resize env) \<longrightarrow> target = rt\<lparr>rt_pixelSize := sz\<rparr>))"
    unfolding Let_def by blast
qed

theorem WM_SIZE_relayout_witness:
  "pRenderTarget win_ready = Some target_800x600
   \<and> SUCCEEDED (hr_Resize env_resized)
   \<and> HandleMessage env_resized WM_SIZE 0 0 win_ready =
       Some (0,
         win_ready\<lparr>pRenderTarget :=
             Some (target_800x600\<lparr>rt_pixelSize := \<lparr>width = 400, height = 1000\<rparr>\<rparr>),
           ellipse := \<lparr>point = \<lparr>pt_x = 200, pt_y = 500\<rparr>, radiusX = 200, radiusY = 200\<rparr>\<rparr>,
         [Call_Resize \<lparr>width = 400, height = 1000\<rparr>, Call_InvalidateRect 1 None False])
   \<and> pRenderTarget win_created = None
   \<and> HandleMessage env_resized WM_SIZE 0 0 win_created = Some (0, win_created, [])"
proof -
  have h1: "pRenderTarget win_ready = Some target_800x600"
    by (simp add: win_ready_def)
  have h2: "pRenderTarget win_created = None"
    by (simp add: win_created_def)
  have h3: "SUCCEEDED (hr_Resize env_resized)"
    by (simp add: env_resized_def env_ok_def SUCCEEDED_def S_OK_def)
  have sz: "SizeU (rc_right (client_rect env_resized)) (rc_bottom (client_rect env_resized))
      = \<lparr>width = 400, height = 1000\<rparr>"
    by (simp add: env_resized_def env_ok_def SizeU_def)
  have dips: "GetSize (target_800x600\<lparr>rt_pixelSize := \<lparr>width = 400, height = 1000\<rparr>\<rparr>)
      = \<lparr>width = 400, height = 1000\<rparr>"
    by (simp add: GetSize_def target_800x600_def dips_at_96_def)
  have hwnd: "m_hwnd win_ready = 1"
    by (simp add: win_ready_def)
  from h1 h3
    WM_SIZE_relayout [where s = win_ready and rt = target_800x600 and env = env_resized
      and wParam = 0 and lParam = 0]
  have resized: "HandleMessage env_resized WM_SIZE 0 0 win_ready =
       Some (0,
         win_ready\<lparr>pRenderTarget :=
             Some (target_800x600\<lparr>rt_pixelSize := \<lparr>width = 400, height = 1000\<rparr>\<rparr>),
           ellipse := \<lparr>point = \<lparr>pt_x = 200, pt_y = 500\<rparr>, radiusX = 200, radiusY = 200\<rparr>\<rparr>,
         [Call_Resize \<lparr>width = 400, height = 1000\<rparr>, Call_InvalidateRect 1 None False])"
    by (auto simp: Let_def sz dips hwnd)
  have ignored: "HandleMessage env_resized WM_SIZE 0 0 win_created = Some (0, win_created, [])"
    using h2
      WM_SIZE_relayout [where s = win_created and rt = target_800x600 and env = env_resized
        and wParam = 0 and lParam = 0]
    by blast
  show ?thesis
    using h1 h2 h3 resized ignored by blast
qed

text \<open>
  The claim speaks of every \<^verbatim>\<open>WM_SIZE\<close> message. The first one of a window comes
  before its first paint: after \<^verbatim>\<open>WM_CREATE\<close>, a \<^verbatim>\<open>WM_SIZE\<close> for a new client
  rectangle leaves the window as \<^verbatim>\<open>WM_CREATE\<close> left it and adds no call: no layout, no
  \<^verbatim>\<open>Resize\<close>, no \<^verbatim>\<open>InvalidateRect\<close>. And when the render target exists but its
  \<^verbatim>\<open>Resize\<close> fails, the \<^verbatim>\<open>HRESULT\<close> is dropped: the render target is not resized to
  the new client area of 400 by 1000, and the circle stays the one of 800 by 600.
\<close>

theorem WM_SIZE_every_message_counterexample:
  "dispatch_messages [(env_ok, WM_CREATE, 0, 0), (env_resized, WM_SIZE, 0, 0)]
      (MainWindow_ctor 1 ellipse_garbage, [])
     = Some (win_created, [Call_D2D1CreateFactory D2D1_FACTORY_TYPE_SINGLE_THREADED])
   \<and> HandleMessage env_resized WM_SIZE 0 0 win_created = Some (0, win_created, [])
   \<and> HandleMessage env_resize_fails WM_SIZE 0 0 win_ready =
       Some (0, win_ready,
         [Call_Resize \<lparr>width = 400, height = 1000\<rparr>, Call_InvalidateRect 1 None False])
   \<and> pRenderTarget win_ready = Some target_800x600
   \<and> rt_pixelSize target_800x600 = \<lparr>width = 800, height = 600\<rparr>"
  by (simp add: operation_defs input_defs message_defs helper_defs Let_def)

subsection \<open>Painting\<close>

text \<open>
  Consistency is kept by every member function, hence by every message, and a new
  window is consistent. So whatever messages arrive, a \<^verbatim>\<open>FillEllipse\<close> that is given
  a brush is given the red one, and a circle.
\<close>

lemma CalculateLayout_consistent:
  "resources_consistent s \<Longrightarrow> resources_consistent (CalculateLayout s)"
  by (auto simp: resources_consistent_def CalculateLayout_def Ellipse_def Let_def
        split: option.splits)

lemma CreateGraphicsResources_consistent:
  assumes "resources_consistent s" and "CreateGraphicsResources env s = Some (hr, s1, t1)"
  shows "resources_consistent s1 \<and> list_all red_circle_call t1"
proof (cases "pRenderTarget s")
  case (Some rt)
  then have "CreateGraphicsResources env s = Some (S_OK, s, [])"
    by (intro CreateGraphicsResources_existing) simp
  with assms show ?thesis by simp
next
  case None
  with assms show ?thesis
    by (auto simp: CreateGraphicsResources_def CreateHwndRenderTarget_def
          CreateSolidColorBrush_def CalculateLayout_def Ellipse_def Let_def
          resources_consistent_def
          split: option.splits if_splits)
qed

lemma DiscardGraphicsResources_consistent:
  "resources_consistent (fst (DiscardGraphicsResources s))
   \<and> list_all red_circle_call (snd (DiscardGraphicsResources s))"
  by (simp add: DiscardGraphicsResources_def SafeRelease_def resources_consistent_def
        split: option.splits)

lemma OnPaint_consistent:
  assumes "resources_consistent s" and "OnPaint env s = Some (s2, t)"
  shows "resources_consistent s2 \<and> list_all red_circle_call t"
proof -
  from assms(2) obtain hr s1 t1 where cgr: "CreateGraphicsResources env s = Some (hr, s1, t1)"
    by (auto simp: OnPaint_def split: option.splits)
  note inv1 = CreateGraphicsResources_consistent [OF assms(1) cgr]
  then have fill: "red_circle_call (Call_FillEllipse (ellipse s1) (pBrush s1))"
    by (cases "pBrush s1") (simp_all add: resources_consistent_def)
  show ?thesis
    using assms(2) cgr inv1 fill DiscardGraphicsResources_consistent [of s1]
    by (auto simp: OnPaint_def Let_def split: option.splits if_splits prod.splits)
qed

lemma Resize_consistent:
  assumes "resources_consistent s"
  shows "resources_consistent (fst (Resize env s)) \<and> list_all red_circle_call (snd (Resize env s))"
  using assms
  by (auto simp: Resize_def CalculateLayout_def Ellipse_def Let_def resources_consistent_def
        split: option.splits prod.splits)

lemma HandleMessage_consistent:
  assumes "resources_consistent s" and "HandleMessage env uMsg wParam lParam s = Some (r, s1, t)"
  shows "resources_consistent s1 \<and> list_all red_circle_call t"
proof -
  consider (create) "uMsg = WM_CREATE"
    | (destroy) "uMsg \<noteq> WM_CREATE" "uMsg = WM_DESTROY"
    | (paint) "uMsg \<noteq> WM_CREATE" "uMsg \<noteq> WM_DESTROY" "uMsg = WM_PAINT"
    | (size) "uMsg \<noteq> WM_CREATE" "uMsg \<noteq> WM_DESTROY" "uMsg \<noteq> WM_PAINT" "uMsg = WM_SIZE"
    | (other) "uMsg \<noteq> WM_CREATE" "uMsg \<noteq> WM_DESTROY" "uMsg \<noteq> WM_PAINT" "uMsg \<noteq> WM_SIZE"
    by blast
  then show ?thesis
  proof cases
    case create
    with assms show ?thesis
      by (auto simp: HandleMessage_def D2D1CreateFactory_def Let_def resources_consistent_def
            split: if_splits option.splits)
  next
    case destroy
    with assms show ?thesis
      by (auto simp: HandleMessage_def DiscardGraphicsResources_def SafeRelease_def
            resources_consistent_def split: option.splits)
  next
    case paint
    with assms obtain t' where "OnPaint env s = Some (s1, t')" and "t = t'"
      by (auto simp: HandleMessage_def split: option.splits)
    with OnPaint_consistent [OF assms(1)] show ?thesis by blast
  next
    case size
    with assms have "s1 = fst (Resize env s)" and "t = snd (Resize env s)"
      by (auto simp: HandleMessage_def split: prod.splits)
    with Resize_consistent [OF assms(1)] show ?thesis by simp
  next
    case other
    with assms show ?thesis
      by (auto simp: HandleMessage_def)
  qed
qed

lemma dispatch_messages_consistent:
  assumes "dispatch_messages msgs (s, t) = Some (s', t')"
    and "resources_consistent s" and "list_all red_circle_call t"
  shows "resources_consistent s' \<and> list_all red_circle_call t'"
  using assms
proof (induction msgs arbitrary: s t)
  case Nil
  then show ?case by simp
next
  case (Cons m msgs)
  obtain env uMsg wParam lParam where m: "m = (env, uMsg, wParam, lParam)"
    by (cases m) auto
  from Cons.prems(1) m obtain r s1 t1
    where step: "HandleMessage env uMsg wParam lParam s = Some (r, s1, t1)"
      and rest: "dispatch_messages msgs (s1, t @ t1) = Some (s', t')"
    by (auto split: option.splits)
  from HandleMessage_consistent [OF Cons.prems(2) step] Cons.prems(3)
  have "resources_consistent s1" and "list_all red_circle_call (t @ t1)"
    by simp_all
  with Cons.IH [OF rest] show ?case by blast
qed

lemma every_brushed_fill_is_red_circle:
  assumes "dispatch_messages msgs (MainWindow_ctor hwnd e0, []) = Some (s, t)"
    and "Call_FillEllipse e (Some b) \<in> set t"
  shows "brush_color b = ColorF 1 0 0 \<and> radiusX e = radiusY e"
proof -
  have "resources_consistent (MainWindow_ctor hwnd e0)"
    by (simp add: resources_consistent_def MainWindow_ctor_def)
  from dispatch_messages_consistent [OF assms(1) this]
  have "list_all red_circle_call t" by simp
  with assms(2) have "red_circle_call (Call_FillEllipse e (Some b))"
    by (auto simp: list_all_iff)
  then show ?thesis by simp
qed

text \<open>
  Claim C2. On every paint in which \<^verbatim>\<open>CreateGraphicsResources\<close> returns success,
  \<^verbatim>\<open>OnPaint\<close> clears the render target with BlanchedAlmond and then fills the ellipse
  with the brush that was created with pure red. The order of the calls is as claimed
  (\<open>OnPaint_draw_calls\<close>), and whenever a brush is passed it is the red one
  (\<open>every_brushed_fill_is_red_circle\<close>). But a paint can succeed without a brush:
  when the render target was created and the creation of the brush failed,
  \<^verbatim>\<open>pRenderTarget\<close> stays set, and the guard of \<^verbatim>\<open>CreateGraphicsResources\<close>, which looks
  at \<^verbatim>\<open>pRenderTarget\<close> alone, answers \<^verbatim>\<open>S_OK\<close> to the next paint. The theorem
  evaluates that paint: the window is reached by \<^verbatim>\<open>WM_CREATE\<close> and one \<^verbatim>\<open>WM_PAINT\<close>,
  \<^verbatim>\<open>CreateGraphicsResources\<close> succeeds on it, and \<^verbatim>\<open>FillEllipse\<close> is called with the
  \<^verbatim>\<open>NULL\<close> brush.
\<close>

theorem OnPaint_succeeds_without_brush:
  "dispatch_messages [(env_ok, WM_CREATE, 0, 0), (env_brush_fails, WM_PAINT, 0, 0)]
      (MainWindow_ctor 1 ellipse_garbage, [])
     = Some (win_no_brush,
         [Call_D2D1CreateFactory D2D1_FACTORY_TYPE_SINGLE_THREADED,
          Call_CreateHwndRenderTarget 1 \<lparr>width = 800, height = 600\<rparr>,
          Call_CreateSolidColorBrush (ColorF 1 0 0)])
   \<and> CreateGraphicsResources env_ok win_no_brush = Some (S_OK, win_no_brush, [])
   \<and> SUCCEEDED S_OK
   \<and> pBrush win_no_brush = None
   \<and> OnPaint env_ok win_no_brush =
       Some (win_no_brush,
         [Call_BeginPaint 1, Call_BeginDraw, Call_Clear (ColorF_known BlanchedAlmond),
          Call_FillEllipse ellipse_garbage None, Call_EndDraw, Call_EndPaint 1])"
  by (simp add: operation_defs input_defs message_defs helper_defs Let_def)

text \<open>
  Claim C9. Every ellipse passed to \<^verbatim>\<open>FillEllipse\<close> has equal radii, since
  \<^verbatim>\<open>OnPaint\<close> draws only after \<^verbatim>\<open>CalculateLayout\<close> has run. Every ellipse that
  \<^verbatim>\<open>CalculateLayout\<close> assigns is a circle (\<open>CalculateLayout_radii\<close>), and so is every
  ellipse drawn with a brush (\<open>every_brushed_fill_is_red_circle\<close>), but the
  constructor leaves the field unassigned, and after a paint in which only the brush
  failed to be created the next paint draws without \<^verbatim>\<open>CalculateLayout\<close> ever having
  run. The theorem evaluates the three messages \<^verbatim>\<open>WM_CREATE\<close>, \<^verbatim>\<open>WM_PAINT\<close> (brush
  creation fails), \<^verbatim>\<open>WM_PAINT\<close> from the constructor: the ellipse passed to
  \<^verbatim>\<open>FillEllipse\<close> is the initial content of the field, here with radii 1 and 2.
\<close>

theorem OnPaint_draws_unassigned_ellipse:
  "dispatch_messages
      [(env_ok, WM_CREATE, 0, 0), (env_brush_fails, WM_PAINT, 0, 0), (env_ok, WM_PAINT, 0, 0)]
      (MainWindow_ctor 1 ellipse_garbage, [])
     = Some (win_no_brush,
         [Call_D2D1CreateFactory D2D1_FACTORY_TYPE_SINGLE_THREADED,
          Call_CreateHwndRenderTarget 1 \<lparr>width = 800, height = 600\<rparr>,
          Call_CreateSolidColorBrush (ColorF 1 0 0),
          Call_BeginPaint 1, Call_BeginDraw, Call_Clear (ColorF_known BlanchedAlmond),
          Call_FillEllipse ellipse_garbage None, Call_EndDraw, Call_EndPaint 1])
   \<and> radiusX ellipse_garbage = 1 \<and> radiusY ellipse_garbage = 2"
  by (simp add: operation_defs input_defs message_defs helper_defs Let_def)

subsection \<open>Creating the window\<close>

text \<open>
  On \<^verbatim>\<open>WM_CREATE\<close> the factory is asked for with the single-threaded factory type; the
  message is answered with \<open>-1\<close> exactly when the creation fails.
\<close>

lemma WM_CREATE_single_threaded_factory:
  "HandleMessage env WM_CREATE wParam lParam s =
     Some (if FAILED (hr_D2D1CreateFactory env) then - 1 else 0,
       s\<lparr>pFactory :=
           if SUCCEEDED (hr_D2D1CreateFactory env)
           then Some \<lparr>factoryType = D2D1_FACTORY_TYPE_SINGLE_THREADED\<rparr> else None\<rparr>,
       [Call_D2D1CreateFactory D2D1_FACTORY_TYPE_SINGLE_THREADED])"
  by (simp add: HandleMessage_def D2D1CreateFactory_def Let_def)

end
